theory Spec2Isabelle
  imports Complex_Main
begin

section \<open>Values of the JavaScript runtime\<close>

text \<open>
  The analysis endpoint (\<^verbatim>\<open>src/app/api/analyze-design/route.ts\<close>) and the upload
  client (\<^verbatim>\<open>src/app/page.tsx\<close>) only ever handle values that came out of
  \<^verbatim>\<open>JSON.parse\<close>, plus \<^verbatim>\<open>undefined\<close> for a property that is not there.
  A parsed value is a \<open>json\<close>; a possibly undefined one is a \<open>json option\<close> with
  \<open>None\<close> for \<^verbatim>\<open>undefined\<close>.

  A string is a list of code units; the model covers code units below 256. A number is
  a finite value or one of the two infinities, which \<^verbatim>\<open>JSON.parse\<close> yields for a
  literal that overflows (\<^verbatim>\<open>1e999\<close>); it never yields \<^verbatim>\<open>NaN\<close>. Negative zero is
  identified with zero: both are falsy and both are serialised as \<^verbatim>\<open>0\<close>. The handler
  never computes with a number, it only asks whether it is zero. An object is an
  association list in the order of its own property keys, the order in which
  \<^verbatim>\<open>JSON.stringify\<close> writes them; \<^verbatim>\<open>JSON.parse\<close> never yields the same key twice,
  and a lookup takes the first entry.
\<close>

datatype number = Finite rat | PosInfinity | NegInfinity

datatype json =
    JNull
  | JBool bool
  | JNum number
  | JStr string
  | JArr "json list"
  | JObj "(string \<times> json) list"

text \<open>Truthiness, as \<^verbatim>\<open>!x\<close> and \<^verbatim>\<open>x || d\<close> test it.\<close>

fun truthy :: "json \<Rightarrow> bool" where
  "truthy JNull = False"
| "truthy (JBool b) = b"
| "truthy (JNum n) = (n \<noteq> Finite 0)"
| "truthy (JStr s) = (s \<noteq> [])"
| "truthy (JArr xs) = True"
| "truthy (JObj kvs) = True"

fun truthy_opt :: "json option \<Rightarrow> bool" where
  "truthy_opt None = False"
| "truthy_opt (Some v) = truthy v"

text \<open>
  \<^verbatim>\<open>v.key\<close> on a value that is neither \<^verbatim>\<open>null\<close> nor \<^verbatim>\<open>undefined\<close>, for the
  keys the code reads (\<^verbatim>\<open>imageBase64\<close>, \<^verbatim>\<open>choices\<close>, \<^verbatim>\<open>message\<close>, \<^verbatim>\<open>content\<close>,
  \<^verbatim>\<open>tokens\<close>, \<^verbatim>\<open>prompt\<close> and the six token fields): none of them is a built-in
  property of a string, number, boolean or array, so only an object can have one.
  Reading a property of \<^verbatim>\<open>null\<close> throws; the callers below test for \<open>JNull\<close>
  before they call \<open>member_of\<close>.
\<close>

fun member_of :: "string \<Rightarrow> json \<Rightarrow> json option" where
  "member_of k (JObj kvs) = map_of kvs k"
| "member_of k v = None"

text \<open>\<^verbatim>\<open>v[0]\<close>: the first element of an array, the first code unit of a string, the
  property \<^verbatim>\<open>"0"\<close> of an object.\<close>

fun index0 :: "json \<Rightarrow> json option" where
  "index0 (JArr []) = None"
| "index0 (JArr (x # xs)) = Some x"
| "index0 (JStr []) = None"
| "index0 (JStr (c # cs)) = Some (JStr [c])"
| "index0 (JObj kvs) = map_of kvs ''0''"
| "index0 v = None"

text \<open>Optional chaining \<^verbatim>\<open>x?.f\<close>: \<^verbatim>\<open>undefined\<close> when \<open>x\<close> is \<^verbatim>\<open>null\<close> or
  \<^verbatim>\<open>undefined\<close>.\<close>

fun opt_chain :: "(json \<Rightarrow> json option) \<Rightarrow> json option \<Rightarrow> json option" where
  "opt_chain f None = None"
| "opt_chain f (Some JNull) = None"
| "opt_chain f (Some v) = f v"

text \<open>\<^verbatim>\<open>x || d\<close>.\<close>

fun or_default :: "json option \<Rightarrow> json \<Rightarrow> json" where
  "or_default None d = d"
| "or_default (Some v) d = (if truthy v then v else d)"

section \<open>String operations\<close>

text \<open>\<^verbatim>\<open>String.prototype.trim\<close> strips white space and line terminators; below
  code unit 256 these are TAB, LF, VT, FF, CR, SP and NBSP.\<close>

definition is_space :: "char \<Rightarrow> bool" where
  "is_space c = (c \<in> set [CHR 0x09, CHR 0x0A, CHR 0x0B, CHR 0x0C, CHR 0x0D, CHR 0x20, CHR 0xA0])"

definition trim :: "string \<Rightarrow> string" where
  "trim s = rev (dropWhile is_space (rev (dropWhile is_space s)))"

definition startsWith :: "string \<Rightarrow> string \<Rightarrow> bool" where
  "startsWith p s = (take (length p) s = p)"

definition endsWith :: "string \<Rightarrow> string \<Rightarrow> bool" where
  "endsWith p s = (length p \<le> length s \<and> drop (length s - length p) s = p)"

section \<open>The defensive unwrap of the provider's reply (route.ts, lines 186 to 204)\<close>

text \<open>
  The regular expression \<^verbatim>\<open>/\{[\s\S]*\}/\<close>, as the engine runs it: start positions
  are tried from the left; at a start the text must show an opening brace, then
  \<^verbatim>\<open>[\s\S]*\<close> takes as many code units as it can and gives back until a closing
  brace follows. \<open>longest_to_close s\<close> is the longest prefix of \<open>s\<close> that ends
  with a closing brace.
\<close>

fun longest_to_close :: "string \<Rightarrow> string option" where
  "longest_to_close [] = None"
| "longest_to_close (c # cs) =
     (case longest_to_close cs of
        Some m \<Rightarrow> Some (c # m)
      | None \<Rightarrow> if c = CHR ''}'' then Some [c] else None)"

fun jsonMatch :: "string \<Rightarrow> string option" where
  "jsonMatch [] = None"
| "jsonMatch (c # cs) =
     (if c = CHR ''{'' then
        (case longest_to_close cs of
           Some m \<Rightarrow> Some (c # m)
         | None \<Rightarrow> jsonMatch cs)
      else jsonMatch cs)"

definition strip_fences :: "string \<Rightarrow> string" where
  "strip_fences content =
     (let c0 = trim content;
          c1 = (if startsWith ''```json'' c0 then drop 7 c0
                else if startsWith ''```'' c0 then drop 3 c0
                else c0);
          c2 = (if endsWith ''```'' c1 then take (length c1 - 3) c1 else c1)
      in trim c2)"

definition cleanContent :: "string \<Rightarrow> string" where
  "cleanContent content =
     (let c = strip_fences content
      in case jsonMatch c of Some m \<Rightarrow> m | None \<Rightarrow> c)"

section \<open>The analysis endpoint (route.ts)\<close>

subsection \<open>Responses\<close>

text \<open>The interfaces \<^verbatim>\<open>DesignTokens\<close> and \<^verbatim>\<open>AnalysisResult\<close>. TypeScript's types
  are erased at run time: a field holds whatever value was put there, so each field is a
  \<open>json\<close>.\<close>

record design_tokens =
  colors :: json
  typography :: json
  spacing :: json
  animations :: json
  elevation :: json
  radius :: json

record analysis_result =
  tokens :: design_tokens
  prompt :: json

text \<open>What \<^verbatim>\<open>NextResponse.json\<close> is given: \<^verbatim>\<open>{ error: msg }\<close> with a status, or
  \<^verbatim>\<open>{ tokens, prompt }\<close> with the default status 200.\<close>

datatype response_body = ErrorBody string | ResultBody analysis_result

record http_response =
  status :: nat
  body :: response_body

definition error_response :: "string \<Rightarrow> nat \<Rightarrow> http_response" where
  "error_response msg st = \<lparr>status = st, body = ErrorBody msg\<rparr>"

definition ok :: "nat \<Rightarrow> bool" where
  "ok st = (200 \<le> st \<and> st \<le> 299)"

text \<open>Whatever is thrown inside the handler reaches the outer \<^verbatim>\<open>catch\<close> (lines 239 to
  242), except inside the inner \<^verbatim>\<open>try\<close> of lines 185 to 213.\<close>

datatype thrown = TypeError | SyntaxError | FetchError

subsection \<open>Validation of the image (lines 101 to 114)\<close>

text \<open>
  \<^verbatim>\<open>/^data:(image\/[^;]+);base64,(.+)$/\<close>, without flags: group 1 runs to the first
  semicolon (it cannot contain one and a semicolon must follow it), the dot matches no
  line terminator (LF and CR below code unit 256) and the dollar only the end of the
  text. The result is the pair of the two groups.
\<close>

definition line_terminator :: "char \<Rightarrow> bool" where
  "line_terminator c = (c = CHR 0x0A \<or> c = CHR 0x0D)"

definition dataUrlMatch :: "string \<Rightarrow> (string \<times> string) option" where
  "dataUrlMatch s =
     (if startsWith ''data:image/'' s then
        (let rest = drop 11 s;
             sub = takeWhile (\<lambda>c. c \<noteq> CHR '';'') rest;
             after = dropWhile (\<lambda>c. c \<noteq> CHR '';'') rest
         in if sub = [] then None
            else if startsWith '';base64,'' after then
              (let payload = drop 8 after
               in if payload = [] \<or> list_ex line_terminator payload then None
                  else Some (''image/'' @ sub, payload))
            else None)
      else None)"

definition supportedFormats :: "string list" where
  "supportedFormats = [''image/png'', ''image/jpeg'', ''image/jpg'', ''image/webp'', ''image/gif'']"

subsection \<open>The outbound call (lines 117 to 150)\<close>

record outbound_call =
  call_url :: string
  call_authorization :: string
  call_body :: json

text \<open>The handler's file comes in two versions that differ in the text of
  \<^verbatim>\<open>SYSTEM_PROMPT\<close> only; the text is a parameter.\<close>

definition provider_call :: "string \<Rightarrow> string \<Rightarrow> string \<Rightarrow> outbound_call" where
  "provider_call SYSTEM_PROMPT apiKey imageBase64 =
     \<lparr>call_url = ''https://api.perplexity.ai/chat/completions'',
      call_authorization = ''Bearer '' @ apiKey,
      call_body = JObj
        [(''model'', JStr ''sonar-pro''),
         (''stream'', JBool False),
         (''messages'', JArr
            [JObj [(''role'', JStr ''system''), (''content'', JStr SYSTEM_PROMPT)],
             JObj [(''role'', JStr ''user''),
                   (''content'', JArr
                      [JObj [(''type'', JStr ''text''),
                             (''text'', JStr ''Analyze this UI design screenshot and extract the design tokens. Return only valid JSON.'')],
                       JObj [(''type'', JStr ''image_url''),
                             (''image_url'', JObj [(''url'', JStr imageBase64)])]])]]),
         (''max_tokens'', JNum (Finite 4096)),
         (''temperature'', JNum (Finite (2 / 10)))]\<rparr>"

text \<open>The provider's answer: its status and what \<^verbatim>\<open>.json()\<close> gives for its body
  (\<open>None\<close>: the body is not JSON and \<^verbatim>\<open>.json()\<close> rejects). \<^verbatim>\<open>fetch\<close> itself
  may reject.\<close>

record provider_response =
  p_status :: nat
  p_json :: "json option"

datatype fetch_outcome = Rejected | Responded provider_response

subsection \<open>Normalisation and the required fields (lines 215 to 238)\<close>

definition default_typography :: json where
  "default_typography =
     JObj [(''headings'', JStr ''Sans-serif, semi-bold''),
           (''body'', JStr ''Sans-serif, regular''),
           (''weights'', JArr [JStr ''400'', JStr ''600''])]"

definition default_spacing :: json where
  "default_spacing = JArr [JStr ''4px'', JStr ''8px'', JStr ''16px'', JStr ''24px'', JStr ''32px'']"

definition default_radius :: json where
  "default_radius = JArr [JStr ''4px'', JStr ''8px'', JStr ''12px'']"

definition normalize_tokens :: "json \<Rightarrow> design_tokens" where
  "normalize_tokens t =
     \<lparr>colors = or_default (member_of ''colors'' t) (JArr []),
      typography = or_default (member_of ''typography'' t) default_typography,
      spacing = or_default (member_of ''spacing'' t) default_spacing,
      animations = or_default (member_of ''animations'' t) (JArr []),
      elevation = or_default (member_of ''elevation'' t) (JArr []),
      radius = or_default (member_of ''radius'' t) default_radius\<rparr>"

definition missing_fields :: http_response where
  "missing_fields = error_response ''AI response missing required fields. Please try again.'' 500"

definition respond :: "json \<Rightarrow> thrown + http_response" where
  "respond analysisResult =
     (case analysisResult of
        JNull \<Rightarrow> Inl TypeError
      | _ \<Rightarrow>
        (case member_of ''tokens'' analysisResult of
           None \<Rightarrow> Inr missing_fields
         | Some t \<Rightarrow>
           if truthy t then
             (case member_of ''prompt'' analysisResult of
                None \<Rightarrow> Inr missing_fields
              | Some p \<Rightarrow>
                if truthy p then
                  Inr \<lparr>status = 200,
                       body = ResultBody \<lparr>tokens = normalize_tokens t, prompt = p\<rparr>\<rparr>
                else Inr missing_fields)
           else Inr missing_fields))"

subsection \<open>Parsing the reply (lines 183 to 213)\<close>

text \<open>
  \<^verbatim>\<open>JSON.parse\<close> belongs to the runtime, not to this repository: it is the parameter
  \<open>JSON_parse\<close>, with \<open>None\<close> for a thrown \<^verbatim>\<open>SyntaxError\<close>. A truthy content that
  is not a string has no \<^verbatim>\<open>trim\<close> method; the \<^verbatim>\<open>TypeError\<close> is thrown inside the
  inner \<^verbatim>\<open>try\<close>, so it ends in the same \<^verbatim>\<open>catch\<close> as a syntax error.
\<close>

definition parse_content :: "(string \<Rightarrow> json option) \<Rightarrow> json \<Rightarrow> json option" where
  "parse_content JSON_parse content =
     (case content of
        JStr s \<Rightarrow> JSON_parse (cleanContent s)
      | _ \<Rightarrow> None)"

subsection \<open>After the outbound call (lines 152 to 238)\<close>

definition provider_error :: "nat \<Rightarrow> http_response" where
  "provider_error st =
     (if st = 401 then error_response ''Invalid API key. Please check your PERPLEXITY_API_KEY.'' 401
      else if st = 429 then error_response ''Rate limit exceeded. Please try again in a moment.'' 429
      else if st = 400 then
        error_response ''Invalid request. The image may be too large (max 50MB) or in an unsupported format.'' 400
      else error_response ''Failed to analyze design. Please try again.'' 500)"

definition reply_content :: "json \<Rightarrow> json option" where
  "reply_content perplexityData =
     opt_chain (member_of ''content'')
       (opt_chain (member_of ''message'')
          (opt_chain index0 (member_of ''choices'' perplexityData)))"

definition after_fetch :: "(string \<Rightarrow> json option) \<Rightarrow> fetch_outcome \<Rightarrow> thrown + http_response" where
  "after_fetch JSON_parse outcome =
     (case outcome of
        Rejected \<Rightarrow> Inl FetchError
      | Responded perplexityResponse \<Rightarrow>
        if ok (p_status perplexityResponse) then
          (case p_json perplexityResponse of
             None \<Rightarrow> Inl SyntaxError
           | Some JNull \<Rightarrow> Inl TypeError
           | Some perplexityData \<Rightarrow>
             (case reply_content perplexityData of
                None \<Rightarrow> Inr (error_response ''No analysis received from AI. Please try again.'' 500)
              | Some content \<Rightarrow>
                if truthy content then
                  (case parse_content JSON_parse content of
                     None \<Rightarrow>
                       Inr (error_response
                         ''Failed to parse AI response. The model returned invalid JSON. Please try again.'' 500)
                   | Some analysisResult \<Rightarrow> respond analysisResult)
                else Inr (error_response ''No analysis received from AI. Please try again.'' 500)))
        else Inr (provider_error (p_status perplexityResponse)))"

subsection \<open>The handler (lines 75 to 243)\<close>

text \<open>
  The handler's inputs are what \<^verbatim>\<open>request.json()\<close> gives (\<open>None\<close>: it rejects),
  the environment variable \<^verbatim>\<open>PERPLEXITY_API_KEY\<close> (\<open>None\<close>: not set) and the
  provider behind \<^verbatim>\<open>fetch\<close>. The result is the response together with the outbound
  calls that were made, in order. \<open>POST_try\<close> is the body of the outer \<^verbatim>\<open>try\<close>.
\<close>

definition POST_try ::
  "(string \<Rightarrow> json option) \<Rightarrow> string \<Rightarrow> string option \<Rightarrow> (outbound_call \<Rightarrow> fetch_outcome) \<Rightarrow>
   json option \<Rightarrow> (thrown + http_response) \<times> outbound_call list" where
  "POST_try JSON_parse SYSTEM_PROMPT env_key fetch request_json =
     (case request_json of
        None \<Rightarrow> (Inl SyntaxError, [])
      | Some JNull \<Rightarrow> (Inl TypeError, [])
      | Some reqBody \<Rightarrow>
        (case member_of ''imageBase64'' reqBody of
           None \<Rightarrow> (Inr (error_response ''No image provided. Please upload an image.'' 400), [])
         | Some imageBase64 \<Rightarrow>
           if truthy imageBase64 then
             (case imageBase64 of
                JStr url \<Rightarrow>
                  if startsWith ''data:image/'' url then
                    (case env_key of
                       None \<Rightarrow>
                         (Inr (error_response
                            ''API key not configured. Please set PERPLEXITY_API_KEY in your environment.'' 500), [])
                     | Some apiKey \<Rightarrow>
                       if apiKey = [] then
                         (Inr (error_response
                            ''API key not configured. Please set PERPLEXITY_API_KEY in your environment.'' 500), [])
                       else
                         (case dataUrlMatch url of
                            None \<Rightarrow> (Inr (error_response ''Invalid image data format.'' 400), [])
                          | Some (mimeType, payload) \<Rightarrow>
                            if mimeType \<in> set supportedFormats then
                              (let call = provider_call SYSTEM_PROMPT apiKey url
                               in (after_fetch JSON_parse (fetch call), [call]))
                            else
                              (Inr (error_response
                                 ''Unsupported image format. Please use PNG, JPEG, WEBP, or GIF.'' 400), [])))
                  else
                    (Inr (error_response ''Invalid image format. Please upload a valid image file.'' 400), [])
              | _ \<Rightarrow> (Inl TypeError, []))
           else (Inr (error_response ''No image provided. Please upload an image.'' 400), [])))"

definition outer_catch :: "thrown + http_response \<Rightarrow> http_response" where
  "outer_catch r =
     (case r of
        Inr response \<Rightarrow> response
      | Inl error \<Rightarrow> error_response ''An unexpected error occurred. Please try again.'' 500)"

definition POST ::
  "(string \<Rightarrow> json option) \<Rightarrow> string \<Rightarrow> string option \<Rightarrow> (outbound_call \<Rightarrow> fetch_outcome) \<Rightarrow>
   json option \<Rightarrow> http_response \<times> outbound_call list" where
  "POST JSON_parse SYSTEM_PROMPT env_key fetch request_json =
     (case POST_try JSON_parse SYSTEM_PROMPT env_key fetch request_json of
        (r, calls) \<Rightarrow> (outer_catch r, calls))"

subsection \<open>What \<^verbatim>\<open>NextResponse.json\<close> sends\<close>

text \<open>
  \<^verbatim>\<open>NextResponse.json(value, init)\<close> sends \<^verbatim>\<open>JSON.stringify(value)\<close> as the body.
  The body of an \<open>http_response\<close> is the value the handler hands over;
  \<open>body_text\<close> is the text that goes out. \<^verbatim>\<open>JSON.stringify\<close> writes a number
  that is not finite as \<^verbatim>\<open>null\<close>, quotes strings (escaping the quote, the backslash
  and the control characters) and writes the members of an object in the order of its
  keys, with no white space. The decimal text of a finite number is the runtime's
  \<^verbatim>\<open>Number::toString\<close>, a parameter.
\<close>

definition hex_digit :: "nat \<Rightarrow> char" where
  "hex_digit n = (if n < 10 then char_of (48 + n) else char_of (87 + n))"

definition escape_unit :: "char \<Rightarrow> string" where
  "escape_unit c =
     (if c = CHR 0x08 then [CHR 0x5C, CHR ''b'']
      else if c = CHR 0x09 then [CHR 0x5C, CHR ''t'']
      else if c = CHR 0x0A then [CHR 0x5C, CHR ''n'']
      else if c = CHR 0x0C then [CHR 0x5C, CHR ''f'']
      else if c = CHR 0x0D then [CHR 0x5C, CHR ''r'']
      else if c = CHR 0x22 then [CHR 0x5C, CHR 0x22]
      else if c = CHR 0x5C then [CHR 0x5C, CHR 0x5C]
      else if (of_char c :: nat) < 32 then
        [CHR 0x5C, CHR ''u'', CHR ''0'', CHR ''0'',
         hex_digit (of_char c div 16), hex_digit (of_char c mod 16)]
      else [c])"

definition QuoteJSONString :: "string \<Rightarrow> string" where
  "QuoteJSONString s = CHR 0x22 # concat (map escape_unit s) @ [CHR 0x22]"

fun join_comma :: "string list \<Rightarrow> string" where
  "join_comma [] = []"
| "join_comma [x] = x"
| "join_comma (x # y # zs) = x @ '','' @ join_comma (y # zs)"

fun JSON_stringify :: "(rat \<Rightarrow> string) \<Rightarrow> json \<Rightarrow> string" where
  "JSON_stringify Number_toString JNull = ''null''"
| "JSON_stringify Number_toString (JBool b) = (if b then ''true'' else ''false'')"
| "JSON_stringify Number_toString (JNum (Finite r)) = Number_toString r"
| "JSON_stringify Number_toString (JNum PosInfinity) = ''null''"
| "JSON_stringify Number_toString (JNum NegInfinity) = ''null''"
| "JSON_stringify Number_toString (JStr s) = QuoteJSONString s"
| "JSON_stringify Number_toString (JArr xs) =
     ''['' @ join_comma (map (JSON_stringify Number_toString) xs) @ '']''"
| "JSON_stringify Number_toString (JObj kvs) =
     ''{'' @ join_comma (map (\<lambda>(k, v). QuoteJSONString k @ '':'' @ JSON_stringify Number_toString v) kvs) @ ''}''"

definition tokens_json :: "design_tokens \<Rightarrow> json" where
  "tokens_json tk =
     JObj [(''colors'', colors tk), (''typography'', typography tk), (''spacing'', spacing tk),
           (''animations'', animations tk), (''elevation'', elevation tk), (''radius'', radius tk)]"

fun body_json :: "response_body \<Rightarrow> json" where
  "body_json (ErrorBody msg) = JObj [(''error'', JStr msg)]"
| "body_json (ResultBody res) = JObj [(''tokens'', tokens_json (tokens res)), (''prompt'', prompt res)]"

definition body_text :: "(rat \<Rightarrow> string) \<Rightarrow> http_response \<Rightarrow> string" where
  "body_text Number_toString r = JSON_stringify Number_toString (body_json (body r))"

text \<open>
  The value a reader of that text gets back (\<^verbatim>\<open>response.json()\<close> in the client): the
  value handed over, with \<^verbatim>\<open>null\<close> in the place of every number that is not finite.
  \<open>received\<close> is the response as the client reads it.
\<close>

fun delivered :: "json \<Rightarrow> json" where
  "delivered JNull = JNull"
| "delivered (JBool b) = JBool b"
| "delivered (JNum (Finite r)) = JNum (Finite r)"
| "delivered (JNum PosInfinity) = JNull"
| "delivered (JNum NegInfinity) = JNull"
| "delivered (JStr s) = JStr s"
| "delivered (JArr xs) = JArr (map delivered xs)"
| "delivered (JObj kvs) = JObj (map (\<lambda>(k, v). (k, delivered v)) kvs)"

definition non_finite :: "json \<Rightarrow> bool" where
  "non_finite v = (v = JNum PosInfinity \<or> v = JNum NegInfinity)"

definition delivered_tokens :: "design_tokens \<Rightarrow> design_tokens" where
  "delivered_tokens tk =
     \<lparr>colors = delivered (colors tk), typography = delivered (typography tk),
      spacing = delivered (spacing tk), animations = delivered (animations tk),
      elevation = delivered (elevation tk), radius = delivered (radius tk)\<rparr>"

fun delivered_body :: "response_body \<Rightarrow> response_body" where
  "delivered_body (ErrorBody msg) = ErrorBody msg"
| "delivered_body (ResultBody res) =
     ResultBody \<lparr>tokens = delivered_tokens (tokens res), prompt = delivered (prompt res)\<rparr>"

definition received :: "http_response \<Rightarrow> http_response" where
  "received r = \<lparr>status = status r, body = delivered_body (body r)\<rparr>"

subsection \<open>The handler in the server process\<close>



section \<open>The upload client (page.tsx)\<close>

text \<open>
  The component's state hooks (lines 32 to 38). \<open>image_val\<close> is the hook
  \<^verbatim>\<open>image\<close>. \<open>result\<close> holds whatever body \<^verbatim>\<open>setResult\<close> was given.
\<close>

record client_state =
  image_val :: "string option"
  fileName :: string
  isLoading :: bool
  error :: "string option"
  result :: "response_body option"
  isDragging :: bool
  copied :: bool

text \<open>The fields of a \<^verbatim>\<open>File\<close> that \<^verbatim>\<open>handleFile\<close> reads: \<^verbatim>\<open>type\<close>,
  \<^verbatim>\<open>size\<close> and \<^verbatim>\<open>name\<close>.\<close>

record upload_file =
  file_type :: string
  file_size :: nat
  file_name :: string

definition client_formats :: "string list" where
  "client_formats = [''image/png'', ''image/jpeg'', ''image/webp'', ''image/gif'']"

text \<open>
  \<^verbatim>\<open>handleFile\<close> (lines 41 to 66) runs in two steps: the synchronous part, which ends
  by starting the \<^verbatim>\<open>FileReader\<close> (the flag says whether it did), and later one of the
  reader's two callbacks.
\<close>

definition handleFile_sync :: "upload_file \<Rightarrow> client_state \<Rightarrow> client_state \<times> bool" where
  "handleFile_sync f st =
     (if file_type f \<in> set client_formats then
        (if file_size f > 50 * 1024 * 1024 then
           (st\<lparr>error := Some ''Image must be less than 50MB''\<rparr>, False)
         else
           (st\<lparr>fileName := file_name f, error := None, result := None\<rparr>, True))
      else
        (st\<lparr>error := Some ''Please upload a supported image file (PNG, JPG, WEBP, GIF)''\<rparr>, False))"

definition reader_onload :: "string \<Rightarrow> client_state \<Rightarrow> client_state" where
  "reader_onload base64 st = st\<lparr>image_val := Some base64\<rparr>"

definition reader_onerror :: "client_state \<Rightarrow> client_state" where
  "reader_onerror st = st\<lparr>error := Some ''Failed to read the image file''\<rparr>"

datatype read_outcome = ReadLoaded string | ReadFailed

text \<open>The whole of \<^verbatim>\<open>handleFile\<close> for one file: the synchronous part followed by the
  callback the reader fires, with no other event in between.\<close>

definition handleFile :: "upload_file \<Rightarrow> read_outcome \<Rightarrow> client_state \<Rightarrow> client_state" where
  "handleFile f outcome st =
     (case handleFile_sync f st of
        (st1, False) \<Rightarrow> st1
      | (st1, True) \<Rightarrow>
          (case outcome of
             ReadLoaded base64 \<Rightarrow> reader_onload base64 st1
           | ReadFailed \<Rightarrow> reader_onerror st1))"

text \<open>
  \<^verbatim>\<open>analyzeDesign\<close> (lines 96 to 121). The call to the endpoint either throws, with
  a message (from \<^verbatim>\<open>fetch\<close> or from \<^verbatim>\<open>response.json()\<close>), or delivers the
  endpoint's response, as the client reads it.
\<close>

datatype endpoint_reply = CallFailed string | Reply http_response

definition analyzeDesign :: "endpoint_reply \<Rightarrow> client_state \<Rightarrow> client_state" where
  "analyzeDesign reply st =
     (case image_val st of
        None \<Rightarrow> st
      | Some img \<Rightarrow>
        if img = [] then st
        else
          (let st1 = st\<lparr>isLoading := True, error := None\<rparr>
           in case reply of
                CallFailed msg \<Rightarrow> st1\<lparr>error := Some msg, isLoading := False\<rparr>
              | Reply response \<Rightarrow>
                  if ok (status response) then
                    st1\<lparr>result := Some (body response), isLoading := False\<rparr>
                  else
                    (case body response of
                       ErrorBody e \<Rightarrow>
                         st1\<lparr>error := Some (if e = [] then ''Failed to analyze design'' else e),
                             isLoading := False\<rparr>
                     | ResultBody r \<Rightarrow>
                         st1\<lparr>error := Some ''Failed to analyze design'', isLoading := False\<rparr>)))"

text \<open>The error banner (\<^verbatim>\<open>{error && <div className="error-message">...{error}</div>}\<close>):
  the text it shows, if it is rendered.\<close>

definition error_banner :: "client_state \<Rightarrow> string option" where
  "error_banner st =
     (case error st of
        None \<Rightarrow> None
      | Some msg \<Rightarrow> if msg = [] then None else Some msg)"

section \<open>Predicates and stubs for stating the properties\<close>

text \<open>A text that opens with a brace and closes with one. Every JSON object text has
  this shape once the white space around it is gone.\<close>

definition brace_delimited :: "string \<Rightarrow> bool" where
  "brace_delimited s =
     (case s of [] \<Rightarrow> False | c # cs \<Rightarrow> c = CHR ''{'' \<and> cs \<noteq> [] \<and> last cs = CHR ''}'')"

text \<open>A parser stubbed by a finite table of texts and their values, to run the handler on
  concrete replies.\<close>

definition stub_parse :: "(string \<times> json) list \<Rightarrow> string \<Rightarrow> json option" where
  "stub_parse table s = map_of table s"

text \<open>The credential counts as configured when \<^verbatim>\<open>!apiKey\<close> is false.\<close>

fun configured :: "string option \<Rightarrow> bool" where
  "configured None = False"
| "configured (Some k) = (k \<noteq> [])"

text \<open>A data URL \<^verbatim>\<open>data:<mime>;base64,<payload>\<close>. It is well formed when the MIME
  type is not empty and has no semicolon, and the payload is not empty and has no line
  terminator.\<close>

definition data_url :: "string \<Rightarrow> string \<Rightarrow> string" where
  "data_url mime payload = ''data:'' @ mime @ '';base64,'' @ payload"

definition well_formed :: "string \<Rightarrow> string \<Rightarrow> bool" where
  "well_formed mime payload =
     (mime \<noteq> [] \<and> CHR '';'' \<notin> set mime \<and> payload \<noteq> [] \<and>
      \<not> list_ex line_terminator payload)"

text \<open>A request that passes every check of the handler before the outbound call: its
  body is an object whose \<^verbatim>\<open>imageBase64\<close> is the string \<open>url\<close>, the pattern matches
  and the MIME type is on the list.\<close>

definition accepted_image :: "json option \<Rightarrow> string \<Rightarrow> bool" where
  "accepted_image request_json url =
     (case request_json of
        Some (JObj kvs) \<Rightarrow>
          map_of kvs ''imageBase64'' = Some (JStr url) \<and>
          (case dataUrlMatch url of
             Some (mimeType, payload) \<Rightarrow> mimeType \<in> set supportedFormats
           | None \<Rightarrow> False)
      | _ \<Rightarrow> False)"

text \<open>A provider that answers every call with status 200 and one completion whose
  message content is the given text.\<close>

definition completion :: "string \<Rightarrow> outbound_call \<Rightarrow> fetch_outcome" where
  "completion content call =
     Responded \<lparr>p_status = 200,
                p_json = Some (JObj [(''choices'',
                  JArr [JObj [(''message'', JObj [(''content'', JStr content)])]])])\<rparr>"

text \<open>The provider answered the call with a success status and a body whose first
  completion has the non-empty string \<open>c\<close> as its message content.\<close>

definition provider_replied :: "fetch_outcome \<Rightarrow> string \<Rightarrow> bool" where
  "provider_replied outcome c =
     (case outcome of
        Responded r \<Rightarrow>
          ok (p_status r) \<and> c \<noteq> [] \<and>
          (case p_json r of
             Some data \<Rightarrow> reply_content data = Some (JStr c)
           | None \<Rightarrow> False)
      | Rejected \<Rightarrow> False)"

text \<open>A request carrying a small PNG as a data URL.\<close>

definition png_request :: "json option" where
  "png_request = Some (JObj [(''imageBase64'', JStr ''data:image/png;base64,iVBORw0KGgo='')])"

text \<open>The interfaces \<^verbatim>\<open>ColorToken\<close>, \<^verbatim>\<open>TypographyToken\<close> and \<^verbatim>\<open>DesignTokens\<close>
  (lines 4 to 22) as predicates on run-time values.\<close>

fun is_string :: "json \<Rightarrow> bool" where
  "is_string (JStr s) = True"
| "is_string v = False"

fun is_object :: "json \<Rightarrow> bool" where
  "is_object (JObj kvs) = True"
| "is_object v = False"

fun is_string_seq :: "json \<Rightarrow> bool" where
  "is_string_seq (JArr xs) = list_all is_string xs"
| "is_string_seq v = False"

definition has_field :: "(json \<Rightarrow> bool) \<Rightarrow> string \<Rightarrow> json \<Rightarrow> bool" where
  "has_field chk k v = (case member_of k v of Some x \<Rightarrow> chk x | None \<Rightarrow> False)"

definition is_color_token :: "json \<Rightarrow> bool" where
  "is_color_token v = (has_field is_string ''name'' v \<and> has_field is_string ''hex'' v)"

fun is_color_seq :: "json \<Rightarrow> bool" where
  "is_color_seq (JArr xs) = list_all is_color_token xs"
| "is_color_seq v = False"

definition is_typography :: "json \<Rightarrow> bool" where
  "is_typography v =
     (has_field is_string ''headings'' v \<and> has_field is_string ''body'' v \<and>
      has_field is_string_seq ''weights'' v)"

definition tokens_well_typed :: "design_tokens \<Rightarrow> bool" where
  "tokens_well_typed tk =
     (is_color_seq (colors tk) \<and> is_typography (typography tk) \<and> is_string_seq (spacing tk) \<and>
      is_string_seq (animations tk) \<and> is_string_seq (elevation tk) \<and> is_string_seq (radius tk))"

text \<open>The same for what the model supplied: a field counts only where it is truthy,
  since any other field is replaced by its default.\<close>

definition supplied_ok :: "(json \<Rightarrow> bool) \<Rightarrow> string \<Rightarrow> json \<Rightarrow> bool" where
  "supplied_ok chk k t =
     (case member_of k t of
        Some v \<Rightarrow> if truthy v then chk v else True
      | None \<Rightarrow> True)"

definition supplied_well_typed :: "json \<Rightarrow> bool" where
  "supplied_well_typed t =
     (supplied_ok is_color_seq ''colors'' t \<and> supplied_ok is_typography ''typography'' t \<and>
      supplied_ok is_string_seq ''spacing'' t \<and> supplied_ok is_string_seq ''animations'' t \<and>
      supplied_ok is_string_seq ''elevation'' t \<and> supplied_ok is_string_seq ''radius'' t)"

text \<open>The tokens of a response, if it carries a result.\<close>

definition returned_tokens :: "http_response \<Rightarrow> design_tokens option" where
  "returned_tokens r =
     (case body r of ResultBody res \<Rightarrow> Some (tokens res) | ErrorBody e \<Rightarrow> None)"

section \<open>Facts about the text operations\<close>

subsection \<open>The brace pattern\<close>

lemma longest_to_close_none: "CHR ''}'' \<notin> set s \<Longrightarrow> longest_to_close s = None"
  by (induction s) auto

lemma longest_to_close_last:
  "CHR ''}'' \<notin> set post \<Longrightarrow> longest_to_close (mid @ CHR ''}'' # post) = Some (mid @ [CHR ''}''])"
  by (induction mid) (auto simp: longest_to_close_none)

lemma jsonMatch_span:
  "CHR ''{'' \<notin> set pre \<Longrightarrow> CHR ''}'' \<notin> set post \<Longrightarrow>
   jsonMatch (pre @ CHR ''{'' # mid @ CHR ''}'' # post) = Some (CHR ''{'' # mid @ [CHR ''}''])"
  by (induction pre) (auto simp: longest_to_close_last)

lemma brace_delimitedD:
  assumes "brace_delimited s"
  shows "\<exists>mid. s = CHR ''{'' # mid @ [CHR ''}'']"
proof (cases s)
  case Nil
  then show ?thesis using assms by (simp add: brace_delimited_def)
next
  case (Cons c cs)
  then have c: "c = CHR ''{''" and cs: "cs \<noteq> []" and l: "last cs = CHR ''}''"
    using assms by (simp_all add: brace_delimited_def)
  have "cs = butlast cs @ [last cs]" using cs by simp
  then have "s = CHR ''{'' # butlast cs @ [CHR ''}'']" using Cons c l by simp
  then show ?thesis by blast
qed

lemma jsonMatch_whole:
  assumes "brace_delimited s"
  shows "jsonMatch s = Some s"
proof -
  obtain mid where s: "s = CHR ''{'' # mid @ [CHR ''}'']"
    using assms brace_delimitedD by blast
  have "jsonMatch ([] @ CHR ''{'' # mid @ CHR ''}'' # []) = Some (CHR ''{'' # mid @ [CHR ''}''])"
    by (rule jsonMatch_span) simp_all
  then show ?thesis using s by simp
qed

subsection \<open>Trimming\<close>

lemma dropWhile_hd: "s \<noteq> [] \<Longrightarrow> \<not> P (hd s) \<Longrightarrow> dropWhile P s = s"
  by (cases s) simp_all

lemma trim_id:
  assumes "s \<noteq> []" "\<not> is_space (hd s)" "\<not> is_space (last s)"
  shows "trim s = s"
proof -
  have 1: "dropWhile is_space s = s" using assms(1,2) by (rule dropWhile_hd)
  have "rev s \<noteq> []" using assms(1) by simp
  moreover have "\<not> is_space (hd (rev s))" using assms(1,3) by (simp add: hd_rev)
  ultimately have 2: "dropWhile is_space (rev s) = rev s" by (rule dropWhile_hd)
  show ?thesis unfolding trim_def 1 2 by simp
qed

lemma trim_pad:
  assumes "is_space a" "is_space b" "\<exists>x\<in>set t. \<not> is_space x"
  shows "trim (a # t @ [b]) = trim t"
proof -
  have "dropWhile is_space (t @ [b]) = dropWhile is_space t @ [b]"
    using assms(3) by (auto simp: dropWhile_append1)
  then have "dropWhile is_space (a # t @ [b]) = dropWhile is_space t @ [b]"
    using assms(1) by simp
  then show ?thesis unfolding trim_def using assms(2) by simp
qed

lemma trim_nonempty: "trim t \<noteq> [] \<Longrightarrow> \<exists>x\<in>set t. \<not> is_space x"
  unfolding trim_def by (auto simp: dropWhile_eq_Nil_conv dest: set_dropWhileD)

lemma trim_hd: 
  assumes a: "trim s \<noteq> []"
  shows "\<not> is_space (hd (trim s))"
proof -
  let ?d = "dropWhile is_space s"
  have d: "?d \<noteq> []" using a unfolding trim_def by (cases "dropWhile is_space s") simp_all
  have hdd: "\<not> is_space (hd ?d)" using d by (rule hd_dropWhile)
  let ?e = "dropWhile is_space (rev ?d)"
  have e: "?e \<noteq> []" using a unfolding trim_def by simp
  have "?d = rev ?e @ rev (takeWhile is_space (rev ?d))"
    by (metis rev_append rev_rev_ident takeWhile_dropWhile_id)
  then have "hd ?d = hd (rev ?e)" using e by (metis hd_append2 rev_is_Nil_conv)
  then show ?thesis using hdd unfolding trim_def by simp
qed

lemma trim_last:
  assumes a: "trim s \<noteq> []"
  shows "\<not> is_space (last (trim s))"
proof -
  let ?e = "dropWhile is_space (rev (dropWhile is_space s))"
  have e: "?e \<noteq> []" using a unfolding trim_def by simp
  then have "\<not> is_space (hd ?e)" by (rule hd_dropWhile)
  then show ?thesis unfolding trim_def using e by (simp add: last_rev)
qed

lemma trim_trim: "trim (trim s) = trim s"
proof (cases "trim s = []")
  case True
  have "trim [] = []" by (simp add: trim_def)
  then show ?thesis using True by simp
next
  case False then show ?thesis by (simp add: trim_id trim_hd trim_last)
qed

subsection \<open>Fences\<close>

lemma endsWith_last:
  assumes "endsWith p s" "p \<noteq> []"
  shows "last s = last p"
proof -
  have le: "length p \<le> length s" and d: "drop (length s - length p) s = p"
    using assms(1) by (simp_all add: endsWith_def)
  have "length s - length p < length s" using assms(2) le by (cases p) auto
  then have "last (drop (length s - length p) s) = last s" by (rule last_drop)
  then show ?thesis using d by simp
qed

lemma strip_fences_inner:
  assumes c0: "trim content = pre @ CHR 0x0A # t @ CHR 0x0A # ''```''"
    and pre: "pre = ''```json'' \<or> pre = ''```''"
  shows "strip_fences content = trim (CHR 0x0A # t @ [CHR 0x0A])"
proof -
  let ?c1 = "CHR 0x0A # t @ CHR 0x0A # ''```''"
  have c1: "(if startsWith ''```json'' (trim content) then drop 7 (trim content)
             else if startsWith ''```'' (trim content) then drop 3 (trim content)
             else trim content) = ?c1"
    using pre by (auto simp: c0 startsWith_def)
  have e: "endsWith ''```'' ?c1" by (simp add: endsWith_def)
  have t: "take (length ?c1 - 3) ?c1 = CHR 0x0A # t @ [CHR 0x0A]" by simp
  show ?thesis unfolding strip_fences_def Let_def c1 using e t by simp
qed

lemma strip_fences_fenced:
  assumes pre: "pre = ''```json'' \<or> pre = ''```''" and nonsp: "trim t \<noteq> []"
  shows "strip_fences (pre @ CHR 0x0A # t @ CHR 0x0A # ''```'') = trim t"
proof -
  let ?F = "pre @ CHR 0x0A # t @ CHR 0x0A # ''```''"
  have "?F \<noteq> []" by simp
  moreover have "\<not> is_space (hd ?F)" using pre by (auto simp: is_space_def)
  moreover have "\<not> is_space (last ?F)" by (simp add: is_space_def)
  ultimately have "trim ?F = ?F" by (rule trim_id)
  then have "strip_fences ?F = trim (CHR 0x0A # t @ [CHR 0x0A])"
    using pre by (intro strip_fences_inner) simp_all
  also have "\<dots> = trim t"
  proof (rule trim_pad)
    show "is_space (CHR 0x0A)" by (simp add: is_space_def)
    show "is_space (CHR 0x0A)" by (simp add: is_space_def)
    show "\<exists>x\<in>set t. \<not> is_space x" using nonsp by (rule trim_nonempty)
  qed
  finally show ?thesis .
qed

lemma strip_fences_bare:
  assumes "brace_delimited (trim t)"
  shows "strip_fences t = trim t"
proof -
  obtain mid where s: "trim t = CHR ''{'' # mid @ [CHR ''}'']"
    using assms brace_delimitedD by blast
  have 1: "\<not> startsWith ''```json'' (trim t)" "\<not> startsWith ''```'' (trim t)"
    by (simp_all add: s startsWith_def)
  have "last (trim t) = CHR ''}''" by (simp add: s)
  then have 2: "\<not> endsWith ''```'' (trim t)" using endsWith_last[of "''```''" "trim t"] by auto
  show ?thesis unfolding strip_fences_def Let_def using 1 2 by (simp add: trim_trim)
qed

section \<open>Facts about the handler\<close>

lemma dataUrlMatch_startsWith: "dataUrlMatch url = Some mp \<Longrightarrow> startsWith ''data:image/'' url"
  by (simp add: dataUrlMatch_def split: if_splits)

lemma startsWith_nonempty: "startsWith ''data:image/'' url \<Longrightarrow> url \<noteq> []"
  by (auto simp: startsWith_def)

lemma POST_try_accepted:
  assumes "accepted_image req url" and "k \<noteq> []"
  shows "POST_try P S (Some k) fetch req =
           (after_fetch P (fetch (provider_call S k url)), [provider_call S k url])"
proof -
  obtain kvs where req: "req = Some (JObj kvs)" and img: "map_of kvs ''imageBase64'' = Some (JStr url)"
    using assms(1) by (auto simp: accepted_image_def split: option.splits json.splits)
  obtain mimeType payload where m: "dataUrlMatch url = Some (mimeType, payload)"
    and sup: "mimeType \<in> set supportedFormats"
    using assms(1) req by (auto simp: accepted_image_def split: option.splits)
  have sw: "startsWith ''data:image/'' url" using m by (rule dataUrlMatch_startsWith)
  have ne: "url \<noteq> []" using sw by (rule startsWith_nonempty)
  show ?thesis
    unfolding POST_try_def req using img m sup sw ne assms(2) by (simp add: Let_def)
qed

lemma POST_accepted:
  assumes "accepted_image req url" and "k \<noteq> []"
  shows "POST P S (Some k) fetch req =
           (outer_catch (after_fetch P (fetch (provider_call S k url))), [provider_call S k url])"
  unfolding POST_def POST_try_accepted [OF assms] by simp

lemma reply_content_null: "reply_content JNull = None"
  by (simp add: reply_content_def)

lemma after_fetch_parsed:
  assumes "ok (p_status r)" and "p_json r = Some data"
    and "reply_content data = Some (JStr c)" and "c \<noteq> []"
    and "P (cleanContent c) = Some a"
  shows "after_fetch P (Responded r) = respond a"
proof -
  have "data \<noteq> JNull" using assms(3) reply_content_null by auto
  then show ?thesis
    unfolding after_fetch_def using assms
    by (cases data) (simp_all add: parse_content_def)
qed

lemma after_fetch_error:
  "\<not> ok (p_status r) \<Longrightarrow> after_fetch P (Responded r) = Inr (provider_error (p_status r))"
  by (simp add: after_fetch_def)

lemma status_error_response: "status (error_response msg st) = st"
  by (simp add: error_response_def)

lemma provider_error_not_200: "status (provider_error st) \<noteq> 200"
  by (simp add: provider_error_def status_error_response)

lemma respond_200:
  assumes "status (outer_catch (respond a)) = 200"
  shows "\<exists>t p. member_of ''tokens'' a = Some t \<and> truthy t \<and> member_of ''prompt'' a = Some p \<and> truthy p \<and>
           outer_catch (respond a) =
             \<lparr>status = 200, body = ResultBody \<lparr>tokens = normalize_tokens t, prompt = p\<rparr>\<rparr>"
  using assms
  by (cases a)
    (auto simp: respond_def outer_catch_def missing_fields_def status_error_response
      split: option.splits if_splits)

lemma after_fetch_200:
  assumes "status (outer_catch (after_fetch P outcome)) = 200"
  shows "\<exists>c a. provider_replied outcome c \<and> P (cleanContent c) = Some a \<and>
           after_fetch P outcome = respond a"
proof (cases outcome)
  case Rejected
  then show ?thesis
    using assms by (simp add: after_fetch_def outer_catch_def status_error_response)
next
  case (Responded r)
  have ok: "ok (p_status r)"
    using assms Responded
    by (auto simp: after_fetch_def outer_catch_def provider_error_not_200 split: if_splits)
  obtain data where data: "p_json r = Some data" "data \<noteq> JNull"
    using assms Responded ok
    by (auto simp: after_fetch_def outer_catch_def status_error_response
        split: option.splits json.splits)
  have af: "after_fetch P outcome =
      (case reply_content data of
         None \<Rightarrow> Inr (error_response ''No analysis received from AI. Please try again.'' 500)
       | Some content \<Rightarrow>
           if truthy content then
             (case parse_content P content of
                None \<Rightarrow>
                  Inr (error_response
                    ''Failed to parse AI response. The model returned invalid JSON. Please try again.'' 500)
              | Some analysisResult \<Rightarrow> respond analysisResult)
           else Inr (error_response ''No analysis received from AI. Please try again.'' 500))"
    using Responded ok data by (cases data) (simp_all add: after_fetch_def)
  obtain content where content: "reply_content data = Some content" "truthy content"
    using assms unfolding af
    by (auto simp: outer_catch_def status_error_response split: option.splits if_splits)
  obtain a where a: "parse_content P content = Some a" "after_fetch P outcome = respond a"
    using assms content unfolding af
    by (auto simp: outer_catch_def status_error_response split: option.splits)
  obtain c where c: "content = JStr c"
    using a(1) by (cases content) (simp_all add: parse_content_def)
  have "provider_replied outcome c"
    using Responded ok data content c by (simp add: provider_replied_def)
  moreover have "P (cleanContent c) = Some a" using a(1) c by (simp add: parse_content_def)
  ultimately show ?thesis using a(2) by blast
qed

lemma POST_200_pieces:
  assumes "status (fst (POST P S key fetch req)) = 200"
  shows "\<exists>kvs url k m pl. req = Some (JObj kvs) \<and> map_of kvs ''imageBase64'' = Some (JStr url) \<and>
           key = Some k \<and> k \<noteq> [] \<and> dataUrlMatch url = Some (m, pl) \<and> m \<in> set supportedFormats"
  using assms
  by (auto simp: POST_def POST_try_def outer_catch_def status_error_response Let_def
      split: option.splits if_splits json.splits prod.splits)

lemma POST_200:
  assumes "status (fst (POST P S key fetch req)) = 200"
  shows "\<exists>k url. accepted_image req url \<and> key = Some k \<and> k \<noteq> []"
proof -
  obtain kvs url k m pl where "req = Some (JObj kvs)" "map_of kvs ''imageBase64'' = Some (JStr url)"
    "key = Some k" "k \<noteq> []" "dataUrlMatch url = Some (m, pl)" "m \<in> set supportedFormats"
    using POST_200_pieces [OF assms] by blast
  then have "accepted_image req url \<and> key = Some k \<and> k \<noteq> []"
    by (simp add: accepted_image_def)
  then show ?thesis by blast
qed

lemma POST_200_result:
  assumes "status (fst (POST P S key fetch req)) = 200"
  shows "\<exists>k url c a t p. key = Some k \<and> k \<noteq> [] \<and> accepted_image req url \<and>
           provider_replied (fetch (provider_call S k url)) c \<and> P (cleanContent c) = Some a \<and>
           member_of ''tokens'' a = Some t \<and> truthy t \<and> member_of ''prompt'' a = Some p \<and> truthy p \<and>
           fst (POST P S key fetch req) =
             \<lparr>status = 200, body = ResultBody \<lparr>tokens = normalize_tokens t, prompt = p\<rparr>\<rparr>"
proof -
  obtain k url where acc: "accepted_image req url" and key: "key = Some k" and k: "k \<noteq> []"
    using POST_200 [OF assms] by blast
  let ?out = "fetch (provider_call S k url)"
  have post: "fst (POST P S key fetch req) = outer_catch (after_fetch P ?out)"
    unfolding key POST_accepted [OF acc k] by simp
  then have "status (outer_catch (after_fetch P ?out)) = 200" using assms by simp
  then obtain c a where pc: "provider_replied ?out c" "P (cleanContent c) = Some a"
    and af: "after_fetch P ?out = respond a"
    using after_fetch_200 [where P = P] by blast
  have "status (outer_catch (respond a)) = 200" using assms post af by simp
  then obtain t p where "member_of ''tokens'' a = Some t" "truthy t" "member_of ''prompt'' a = Some p"
    "truthy p" "outer_catch (respond a) =
             \<lparr>status = 200, body = ResultBody \<lparr>tokens = normalize_tokens t, prompt = p\<rparr>\<rparr>"
    using respond_200 by blast
  then show ?thesis using pc post af acc key k by auto
qed

lemma POST_parsed:
  assumes "accepted_image req url" and "k \<noteq> []"
    and "provider_replied (fetch (provider_call S k url)) c"
    and "P (cleanContent c) = Some a"
  shows "POST P S (Some k) fetch req = (outer_catch (respond a), [provider_call S k url])"
proof -
  obtain r data where r: "fetch (provider_call S k url) = Responded r"
    and "ok (p_status r)" "c \<noteq> []" "p_json r = Some data" "reply_content data = Some (JStr c)"
    using assms(3) by (auto simp: provider_replied_def split: fetch_outcome.splits option.splits)
  then have "after_fetch P (Responded r) = respond a"
    using assms(4) by (simp add: after_fetch_parsed [where P = P and c = c and data = data])
  then show ?thesis
    unfolding POST_accepted [OF assms(1,2)] r by simp
qed

lemma respond_missing:
  assumes "\<not> truthy_opt (member_of ''tokens'' a) \<or> \<not> truthy_opt (member_of ''prompt'' a)"
    and "a \<noteq> JNull"
  shows "respond a = Inr missing_fields"
  using assms by (cases a) (auto simp: respond_def split: option.splits)

lemma png_accepted: "accepted_image png_request ''data:image/png;base64,iVBORw0KGgo=''"
  by (simp add: accepted_image_def png_request_def dataUrlMatch_def startsWith_def
      line_terminator_def supportedFormats_def)

lemma completion_replied: "c \<noteq> [] \<Longrightarrow> provider_replied (completion c call) c"
  by (simp add: provider_replied_def completion_def ok_def reply_content_def)

lemma POST_completion:
  assumes "k \<noteq> []" and "c \<noteq> []" and "P (cleanContent c) = Some a"
  shows "POST P S (Some k) (completion c) png_request =
           (outer_catch (respond a), [provider_call S k ''data:image/png;base64,iVBORw0KGgo=''])"
  using png_accepted assms(1) completion_replied [OF assms(2)] assms(3)
  by (rule POST_parsed [where P = P and fetch = "completion c" and c = c])

lemma or_default_truthy: "truthy d \<Longrightarrow> truthy (or_default x d)"
  by (cases x) simp_all

lemma or_default_typed: "supplied_ok chk k t \<Longrightarrow> chk d \<Longrightarrow> chk (or_default (member_of k t) d)"
  by (cases "member_of k t") (auto simp: supplied_ok_def split: if_splits)

lemma default_typography_typed: "is_typography default_typography"
  by (simp add: is_typography_def has_field_def default_typography_def)

lemma normalize_tokens_truthy:
  "truthy (colors (normalize_tokens t)) \<and> truthy (typography (normalize_tokens t)) \<and>
   truthy (spacing (normalize_tokens t)) \<and> truthy (animations (normalize_tokens t)) \<and>
   truthy (elevation (normalize_tokens t)) \<and> truthy (radius (normalize_tokens t))"
  by (simp add: normalize_tokens_def or_default_truthy default_typography_def default_spacing_def
      default_radius_def)

lemma normalize_tokens_typed:
  assumes "supplied_well_typed t"
  shows "tokens_well_typed (normalize_tokens t)"
  using assms
  by (simp add: supplied_well_typed_def tokens_well_typed_def normalize_tokens_def or_default_typed
      default_typography_typed default_spacing_def default_radius_def)

lemma completion_content_unique:
  "provider_replied (completion c call) c' \<Longrightarrow> c' = c"
  by (simp add: provider_replied_def completion_def reply_content_def)

lemma POST_try_no_image:
  assumes "member_of ''imageBase64'' b = None" and "b \<noteq> JNull"
  shows "POST_try P S key fetch (Some b) =
           (Inr (error_response ''No image provided. Please upload an image.'' 400), [])"
  using assms by (cases b) (simp_all add: POST_try_def)

lemma POST_try_image:
  assumes "map_of kvs ''imageBase64'' = Some v"
  shows "POST_try P S key fetch (Some (JObj kvs)) =
     (if truthy v then
        (case v of
           JStr url \<Rightarrow>
             if startsWith ''data:image/'' url then
               (if configured key then
                  (case dataUrlMatch url of
                     None \<Rightarrow> (Inr (error_response ''Invalid image data format.'' 400), [])
                   | Some (mimeType, payload) \<Rightarrow>
                       if mimeType \<in> set supportedFormats then
                         (after_fetch P (fetch (provider_call S (the key) url)),
                          [provider_call S (the key) url])
                       else
                         (Inr (error_response
                            ''Unsupported image format. Please use PNG, JPEG, WEBP, or GIF.'' 400), []))
                else
                  (Inr (error_response
                     ''API key not configured. Please set PERPLEXITY_API_KEY in your environment.'' 500), []))
             else
               (Inr (error_response ''Invalid image format. Please upload a valid image file.'' 400), [])
         | _ \<Rightarrow> (Inl TypeError, []))
      else (Inr (error_response ''No image provided. Please upload an image.'' 400), []))"
proof (cases key)
  case None
  then show ?thesis using assms by (cases v) (simp_all add: POST_try_def)
next
  case (Some k)
  show ?thesis unfolding Some using assms
    by (cases v; cases "k = []")
      (simp_all add: POST_try_def Let_def split: option.splits prod.splits)
qed

lemma provider_error_body:
  "\<exists>msg. msg \<noteq> [] \<and> body (provider_error st) = ErrorBody msg \<and> \<not> ok (status (provider_error st))"
  by (simp add: provider_error_def error_response_def ok_def)

lemma analyzeDesign_error:
  assumes "image_val st = Some img" and "img \<noteq> []"
    and "body response = ErrorBody msg" and "msg \<noteq> []" and "\<not> ok (status response)"
  shows "error (analyzeDesign (Reply response) st) = Some msg \<and>
         error_banner (analyzeDesign (Reply response) st) = Some msg"
  using assms by (simp add: analyzeDesign_def error_banner_def Let_def)

lemma takeWhile_no_semicolon:
  "CHR '';'' \<notin> set m \<Longrightarrow> takeWhile (\<lambda>c. c \<noteq> CHR '';'') (m @ CHR '';'' # rest) = m"
  by (induction m) auto

lemma dropWhile_no_semicolon:
  "CHR '';'' \<notin> set m \<Longrightarrow> dropWhile (\<lambda>c. c \<noteq> CHR '';'') (m @ CHR '';'' # rest) = CHR '';'' # rest"
  by (induction m) auto

lemma dataUrlMatch_data_url:
  assumes "startsWith ''image/'' mime" and "CHR '';'' \<notin> set mime"
  shows "dataUrlMatch (data_url mime payload) =
           (if mime = ''image/'' \<or> payload = [] \<or> list_ex line_terminator payload then None
            else Some (mime, payload))"
proof -
  obtain m where mime: "mime = ''image/'' @ m"
    using assms(1) by (metis append_take_drop_id startsWith_def length_Cons list.size(3))
  have m: "CHR '';'' \<notin> set m" using assms(2) mime by simp
  have url: "data_url mime payload = ''data:image/'' @ m @ CHR '';'' # ''base64,'' @ payload"
    by (simp add: data_url_def mime)
  have sw: "startsWith ''data:image/'' (data_url mime payload)" by (simp add: url startsWith_def)
  have rest: "drop 11 (data_url mime payload) = m @ CHR '';'' # ''base64,'' @ payload"
    by (simp add: url)
  show ?thesis
    unfolding dataUrlMatch_def rest Let_def takeWhile_no_semicolon [OF m] dropWhile_no_semicolon [OF m]
    using sw by (simp add: startsWith_def mime)
qed

lemma startsWith_append_sep:
  "c \<notin> set p \<Longrightarrow> startsWith p (m @ c # rest) = startsWith p m"
proof (induction p arbitrary: m)
  case Nil
  then show ?case by (simp add: startsWith_def)
next
  case (Cons x p)
  show ?case
  proof (cases m)
    case Nil
    then show ?thesis using Cons.prems by (auto simp: startsWith_def)
  next
    case (Cons y m')
    have "startsWith p (m' @ c # rest) = startsWith p m'"
      using Cons.IH Cons.prems by simp
    then show ?thesis using Cons by (simp add: startsWith_def)
  qed
qed

lemma startsWith_data_url:
  "startsWith ''data:image/'' (data_url mime payload) = startsWith ''image/'' mime"
proof -
  have "startsWith ''data:image/'' (data_url mime payload)
      = startsWith ''image/'' (mime @ CHR '';'' # ''base64,'' @ payload)"
    by (simp add: startsWith_def data_url_def)
  also have "\<dots> = startsWith ''image/'' mime"
    by (rule startsWith_append_sep) simp
  finally show ?thesis .
qed

lemma stringify_delivered: "JSON_stringify nt (delivered v) = JSON_stringify nt v"
  by (induction v rule: delivered.induct)
    (auto simp: comp_def case_prod_unfold intro!: arg_cong [where f = join_comma])

lemma body_text_received: "body_text nt (received r) = body_text nt r"
proof (cases "body r")
  case (ErrorBody msg)
  then show ?thesis by (simp add: body_text_def received_def)
next
  case (ResultBody res)
  have "JSON_stringify nt (delivered (body_json (ResultBody res))) = JSON_stringify nt (body_json (ResultBody res))"
    by (rule stringify_delivered)
  moreover have "delivered (body_json (ResultBody res)) = body_json (delivered_body (ResultBody res))"
    by (simp add: tokens_json_def delivered_tokens_def)
  ultimately show ?thesis using ResultBody by (simp add: body_text_def received_def)
qed

lemma delivered_null_iff: "truthy v \<Longrightarrow> (delivered v = JNull) = non_finite v"
proof (cases v)
  case (JNum n)
  then show ?thesis by (cases n) (simp_all add: non_finite_def)
qed (simp_all add: non_finite_def)

lemma is_string_delivered: "is_string v \<Longrightarrow> delivered v = v"
  by (cases v) simp_all

lemma is_string_seq_delivered: "is_string_seq v \<Longrightarrow> delivered v = v"
  by (cases v) (simp_all add: list_all_iff is_string_delivered map_idI)

lemma member_of_delivered: "member_of k (delivered v) = map_option delivered (member_of k v)"
proof (cases v)
  case (JNum n)
  then show ?thesis by (cases n) simp_all
next
  case (JObj kvs)
  have "map_of (map (\<lambda>(k, v). (k, delivered v)) kvs) k = map_option delivered (map_of kvs k)"
    by (induction kvs) auto
  then show ?thesis using JObj by simp
qed simp_all

lemma has_field_delivered:
  assumes "has_field chk k v" and "\<And>x. chk x \<Longrightarrow> chk (delivered x)"
  shows "has_field chk k (delivered v)"
  using assms by (auto simp: has_field_def member_of_delivered split: option.splits)

lemma is_string_delivered': "is_string x \<Longrightarrow> is_string (delivered x)"
  by (simp add: is_string_delivered)

lemma is_string_seq_delivered': "is_string_seq x \<Longrightarrow> is_string_seq (delivered x)"
  by (simp add: is_string_seq_delivered)

lemma is_color_token_delivered: "is_color_token v \<Longrightarrow> is_color_token (delivered v)"
  unfolding is_color_token_def by (auto intro: has_field_delivered is_string_delivered')

lemma is_color_seq_delivered: "is_color_seq v \<Longrightarrow> is_color_seq (delivered v)"
  by (cases v) (simp_all add: list_all_iff is_color_token_delivered)

lemma is_typography_delivered: "is_typography v \<Longrightarrow> is_typography (delivered v)"
  unfolding is_typography_def
  by (auto intro: has_field_delivered is_string_delivered' is_string_seq_delivered')

lemma tokens_well_typed_delivered:
  "tokens_well_typed tk \<Longrightarrow> tokens_well_typed (delivered_tokens tk)"
  by (simp add: tokens_well_typed_def delivered_tokens_def is_color_seq_delivered
      is_typography_delivered is_string_seq_delivered')

lemma normalize_tokens_delivery:
  "list_all (\<lambda>field. truthy (field (normalize_tokens t)) \<and>
       (delivered (field (normalize_tokens t)) = JNull) = non_finite (field (normalize_tokens t)))
     [colors, typography, spacing, animations, elevation, radius]"
  using normalize_tokens_truthy [of t] by (simp add: delivered_null_iff)



section \<open>The defensive unwrap\<close>

text \<open>
  Claim C6. When the cleaned content (the reply after the fences are stripped) holds a
  brace-delimited span with prose before or after it, the bracket extraction selects
  exactly the text from the first opening brace to the last closing brace, and that text
  is what the parser is given: with no opening brace in \<open>pre\<close> and no closing brace
  in \<open>post\<close>, the span is the one from the first to the last, whatever braces
  \<open>mid\<close> holds.
\<close>

theorem bracket_extraction_first_to_last:
  assumes "strip_fences content = pre @ CHR ''{'' # mid @ CHR ''}'' # post"
    and "CHR ''{'' \<notin> set pre" and "CHR ''}'' \<notin> set post"
  shows "jsonMatch (strip_fences content) = Some (CHR ''{'' # mid @ [CHR ''}'']) \<and>
         cleanContent content = CHR ''{'' # mid @ [CHR ''}''] \<and>
         parse_content JSON_parse (JStr content) = JSON_parse (CHR ''{'' # mid @ [CHR ''}''])"
proof -
  have m: "jsonMatch (strip_fences content) = Some (CHR ''{'' # mid @ [CHR ''}''])"
    unfolding assms(1) using assms(2,3) by (rule jsonMatch_span)
  then have c: "cleanContent content = CHR ''{'' # mid @ [CHR ''}'']"
    by (simp add: cleanContent_def)
  show ?thesis using m c by (simp add: parse_content_def)
qed

theorem bracket_extraction_witness:
  "jsonMatch (strip_fences ''Here is the JSON: {\"a\":{\"b\":1}} I hope this helps!'')
     = Some ''{\"a\":{\"b\":1}}'' \<and>
   cleanContent ''Here is the JSON: {\"a\":{\"b\":1}} I hope this helps!'' = ''{\"a\":{\"b\":1}}'' \<and>
   parse_content (stub_parse [(''{\"a\":{\"b\":1}}'', JObj [(''a'', JObj [(''b'', JNum (Finite 1))])])])
     (JStr ''Here is the JSON: {\"a\":{\"b\":1}} I hope this helps!'') =
     Some (JObj [(''a'', JObj [(''b'', JNum (Finite 1))])])"
proof -
  have h1: "strip_fences ''Here is the JSON: {\"a\":{\"b\":1}} I hope this helps!''
      = ''Here is the JSON: '' @ CHR ''{'' # ''\"a\":{\"b\":1}'' @ CHR ''}'' # '' I hope this helps!''"
    by (simp add: strip_fences_def trim_def is_space_def startsWith_def endsWith_def)
  have h2: "CHR ''{'' \<notin> set ''Here is the JSON: ''" by simp
  have h3: "CHR ''}'' \<notin> set '' I hope this helps!''" by simp
  show ?thesis
    using bracket_extraction_first_to_last [OF h1 h2 h3,
        of "stub_parse [(''{\"a\":{\"b\":1}}'', JObj [(''a'', JObj [(''b'', JNum (Finite 1))])])]"]
    by (simp add: stub_parse_def)
qed

text \<open>
  Claim C5. For every JSON object text \<open>t\<close> (a text that opens and closes with a
  brace once the white space around it is trimmed, which the parser ignores:
  \<open>JSON_parse (trim t) = JSON_parse t\<close>), the unwrap of \<open>t\<close> inside a fence
  with the tag \<^verbatim>\<open>json\<close>, or inside a fence with no tag, is the trimmed text, and it
  parses to the same value as \<open>t\<close> with no fence.
\<close>

theorem fenced_object_parses_as_unfenced:
  assumes "brace_delimited (trim t)" and "JSON_parse (trim t) = JSON_parse t"
  shows "cleanContent (''```json'' @ CHR 0x0A # t @ CHR 0x0A # ''```'') = trim t \<and>
         cleanContent (''```'' @ CHR 0x0A # t @ CHR 0x0A # ''```'') = trim t \<and>
         parse_content JSON_parse (JStr (''```json'' @ CHR 0x0A # t @ CHR 0x0A # ''```'')) = JSON_parse t \<and>
         parse_content JSON_parse (JStr (''```'' @ CHR 0x0A # t @ CHR 0x0A # ''```'')) = JSON_parse t \<and>
         parse_content JSON_parse (JStr t) = JSON_parse t"
proof -
  have ne: "trim t \<noteq> []" using assms(1) by (auto simp: brace_delimited_def)
  have m: "jsonMatch (trim t) = Some (trim t)" using assms(1) by (rule jsonMatch_whole)
  have f1: "strip_fences (''```json'' @ CHR 0x0A # t @ CHR 0x0A # ''```'') = trim t"
    by (rule strip_fences_fenced) (simp_all add: ne)
  have f2: "strip_fences (''```'' @ CHR 0x0A # t @ CHR 0x0A # ''```'') = trim t"
    by (rule strip_fences_fenced) (simp_all add: ne)
  have f3: "strip_fences t = trim t" using assms(1) by (rule strip_fences_bare)
  have c1: "cleanContent (''```json'' @ CHR 0x0A # t @ CHR 0x0A # ''```'') = trim t"
    unfolding cleanContent_def f1 Let_def m by simp
  have c2: "cleanContent (''```'' @ CHR 0x0A # t @ CHR 0x0A # ''```'') = trim t"
    unfolding cleanContent_def f2 Let_def m by simp
  have c3: "cleanContent t = trim t"
    unfolding cleanContent_def f3 Let_def m by simp
  show ?thesis unfolding parse_content_def json.case c1 c2 c3 using assms(2) by simp
qed

theorem fenced_object_witness:
  "cleanContent ''```json\<newline> {\"a\":1} \<newline>```'' = ''{\"a\":1}'' \<and>
   cleanContent ''```\<newline> {\"a\":1} \<newline>```'' = ''{\"a\":1}'' \<and>
   parse_content (stub_parse [(''{\"a\":1}'', JObj [(''a'', JNum (Finite 1))]), ('' {\"a\":1} '', JObj [(''a'', JNum (Finite 1))])])
     (JStr ''```json\<newline> {\"a\":1} \<newline>```'') = Some (JObj [(''a'', JNum (Finite 1))]) \<and>
   parse_content (stub_parse [(''{\"a\":1}'', JObj [(''a'', JNum (Finite 1))]), ('' {\"a\":1} '', JObj [(''a'', JNum (Finite 1))])])
     (JStr ''```\<newline> {\"a\":1} \<newline>```'') = Some (JObj [(''a'', JNum (Finite 1))]) \<and>
   parse_content (stub_parse [(''{\"a\":1}'', JObj [(''a'', JNum (Finite 1))]), ('' {\"a\":1} '', JObj [(''a'', JNum (Finite 1))])])
     (JStr '' {\"a\":1} '') = Some (JObj [(''a'', JNum (Finite 1))])"
proof -
  let ?P = "stub_parse [(''{\"a\":1}'', JObj [(''a'', JNum (Finite 1))]), ('' {\"a\":1} '', JObj [(''a'', JNum (Finite 1))])]"
  have t: "trim '' {\"a\":1} '' = ''{\"a\":1}''" by (simp add: trim_def is_space_def)
  have r: "?P '' {\"a\":1} '' = Some (JObj [(''a'', JNum (Finite 1))])" by (simp add: stub_parse_def)
  have r': "?P ''{\"a\":1}'' = Some (JObj [(''a'', JNum (Finite 1))])" by (simp add: stub_parse_def)
  have h1: "brace_delimited (trim '' {\"a\":1} '')" unfolding t by (simp add: brace_delimited_def)
  have h2: "?P (trim '' {\"a\":1} '') = ?P '' {\"a\":1} ''" unfolding t r r' by simp
  show ?thesis
    using fenced_object_parses_as_unfenced [OF h1 h2] by (simp add: t r)
qed

section \<open>Normalisation of the tokens\<close>

lemma or_default_cases:
  "or_default x d = (case x of Some v \<Rightarrow> if truthy v then v else d | None \<Rightarrow> d)"
  by (cases x) simp_all

text \<open>
  Claim C4. For every parsed tokens value, a token field that is absent or falsy gets the
  documented default: the spacing scale 4px, 8px, 16px, 24px, 32px; the radius scale
  4px, 8px, 12px; the default typography descriptors; and the empty sequence for
  colors, animations and elevation. A field that is present and truthy passes through
  unchanged.
\<close>

theorem normalize_tokens_defaults:
  "(\<not> truthy_opt (member_of ''spacing'' t) \<longrightarrow>
      spacing (normalize_tokens t) = JArr [JStr ''4px'', JStr ''8px'', JStr ''16px'', JStr ''24px'', JStr ''32px'']) \<and>
   (\<not> truthy_opt (member_of ''radius'' t) \<longrightarrow>
      radius (normalize_tokens t) = JArr [JStr ''4px'', JStr ''8px'', JStr ''12px'']) \<and>
   (\<not> truthy_opt (member_of ''typography'' t) \<longrightarrow>
      typography (normalize_tokens t) =
        JObj [(''headings'', JStr ''Sans-serif, semi-bold''),
              (''body'', JStr ''Sans-serif, regular''),
              (''weights'', JArr [JStr ''400'', JStr ''600''])]) \<and>
   (\<not> truthy_opt (member_of ''colors'' t) \<longrightarrow> colors (normalize_tokens t) = JArr []) \<and>
   (\<not> truthy_opt (member_of ''animations'' t) \<longrightarrow> animations (normalize_tokens t) = JArr []) \<and>
   (\<not> truthy_opt (member_of ''elevation'' t) \<longrightarrow> elevation (normalize_tokens t) = JArr []) \<and>
   (\<forall>v. member_of ''colors'' t = Some v \<and> truthy v \<longrightarrow> colors (normalize_tokens t) = v) \<and>
   (\<forall>v. member_of ''typography'' t = Some v \<and> truthy v \<longrightarrow> typography (normalize_tokens t) = v) \<and>
   (\<forall>v. member_of ''spacing'' t = Some v \<and> truthy v \<longrightarrow> spacing (normalize_tokens t) = v) \<and>
   (\<forall>v. member_of ''animations'' t = Some v \<and> truthy v \<longrightarrow> animations (normalize_tokens t) = v) \<and>
   (\<forall>v. member_of ''elevation'' t = Some v \<and> truthy v \<longrightarrow> elevation (normalize_tokens t) = v) \<and>
   (\<forall>v. member_of ''radius'' t = Some v \<and> truthy v \<longrightarrow> radius (normalize_tokens t) = v)"
  by (simp add: normalize_tokens_def or_default_cases default_spacing_def default_radius_def
      default_typography_def split: option.splits)

theorem normalize_tokens_witness:
  "normalize_tokens
     (JObj [(''colors'', JArr [JObj [(''name'', JStr ''Red''), (''hex'', JStr ''#FF0000'')]]),
            (''spacing'', JNull), (''animations'', JArr [])]) =
   \<lparr>colors = JArr [JObj [(''name'', JStr ''Red''), (''hex'', JStr ''#FF0000'')]],
    typography = JObj [(''headings'', JStr ''Sans-serif, semi-bold''),
                       (''body'', JStr ''Sans-serif, regular''),
                       (''weights'', JArr [JStr ''400'', JStr ''600''])],
    spacing = JArr [JStr ''4px'', JStr ''8px'', JStr ''16px'', JStr ''24px'', JStr ''32px''],
    animations = JArr [],
    elevation = JArr [],
    radius = JArr [JStr ''4px'', JStr ''8px'', JStr ''12px'']\<rparr>"
  using normalize_tokens_defaults
    [of "JObj [(''colors'', JArr [JObj [(''name'', JStr ''Red''), (''hex'', JStr ''#FF0000'')]]),
               (''spacing'', JNull), (''animations'', JArr [])]"]
  by (simp add: design_tokens.equality)

section \<open>The required fields\<close>

text \<open>
  Claim C10. If the provider's reply parses to an object whose \<^verbatim>\<open>prompt\<close> is present
  but the empty string, or whose \<^verbatim>\<open>tokens\<close> is any falsy value, the handler answers
  with the 500 error for missing required fields and not with a 200: the check tests
  truthiness, so a field that is present but falsy counts as absent.
\<close>

theorem falsy_required_field_is_missing:
  assumes "accepted_image req url" and "k \<noteq> []"
    and "provider_replied (fetch (provider_call S k url)) c"
    and "P (cleanContent c) = Some (JObj kvs)"
    and "map_of kvs ''prompt'' = Some (JStr []) \<or> (\<exists>v. map_of kvs ''tokens'' = Some v \<and> \<not> truthy v)"
  shows "fst (POST P S (Some k) fetch req) =
           \<lparr>status = 500, body = ErrorBody ''AI response missing required fields. Please try again.''\<rparr>"
proof -
  have "\<not> truthy_opt (member_of ''tokens'' (JObj kvs)) \<or> \<not> truthy_opt (member_of ''prompt'' (JObj kvs))"
    using assms(5) by auto
  then have "respond (JObj kvs) = Inr missing_fields" by (rule respond_missing) simp
  moreover have "POST P S (Some k) fetch req = (outer_catch (respond (JObj kvs)), [provider_call S k url])"
    using assms(1-4) by (rule POST_parsed [where P = P and fetch = fetch and c = c])
  ultimately show ?thesis
    by (simp add: outer_catch_def missing_fields_def error_response_def)
qed

theorem falsy_required_field_witness:
  "fst (POST (stub_parse [(''{\"tokens\":{},\"prompt\":\"\"}'', JObj [(''tokens'', JObj []), (''prompt'', JStr [])])])
          ''You are an expert UI/UX designer.'' (Some ''pplx-key'')
          (completion ''{\"tokens\":{},\"prompt\":\"\"}'') png_request) =
     \<lparr>status = 500, body = ErrorBody ''AI response missing required fields. Please try again.''\<rparr>"
proof -
  let ?c = "''{\"tokens\":{},\"prompt\":\"\"}''"
  let ?kvs = "[(''tokens'', JObj []), (''prompt'', JStr [])]"
  let ?P = "stub_parse [(?c, JObj ?kvs)]"
  have cc: "cleanContent ?c = ?c"
    by (simp add: cleanContent_def strip_fences_def trim_def is_space_def startsWith_def endsWith_def)
  have h2: "''pplx-key'' \<noteq> []" by simp
  have h3: "provider_replied (completion ?c (provider_call ''You are an expert UI/UX designer.''
      ''pplx-key'' ''data:image/png;base64,iVBORw0KGgo='')) ?c"
    by (rule completion_replied) simp
  have h4: "?P (cleanContent ?c) = Some (JObj ?kvs)"
    unfolding cc by (simp add: stub_parse_def)
  have h5: "map_of ?kvs ''prompt'' = Some (JStr []) \<or>
      (\<exists>v. map_of ?kvs ''tokens'' = Some v \<and> \<not> truthy v)"
    by simp
  show ?thesis
    using falsy_required_field_is_missing
      [where P = "?P" and fetch = "completion ?c" and c = "?c", OF png_accepted h2 h3 h4 h5]
    by simp
qed

text \<open>
  Claim C3, as amended. The handler answers 200 only if the parsed reply has a truthy
  \<^verbatim>\<open>tokens\<close> and a truthy \<^verbatim>\<open>prompt\<close>, of whatever type; if either key is absent
  the answer is a 500 and, for every parsed value other than \<^verbatim>\<open>null\<close>, the 500 for
  missing required fields.
\<close>

theorem required_fields_gate:
  assumes "accepted_image req url" and "k \<noteq> []"
    and "provider_replied (fetch (provider_call S k url)) c"
    and "P (cleanContent c) = Some a"
  shows "(status (fst (POST P S (Some k) fetch req)) = 200 \<longrightarrow>
            truthy_opt (member_of ''tokens'' a) \<and> truthy_opt (member_of ''prompt'' a)) \<and>
         ((member_of ''tokens'' a = None \<or> member_of ''prompt'' a = None) \<longrightarrow>
            status (fst (POST P S (Some k) fetch req)) = 500) \<and>
         ((member_of ''tokens'' a = None \<or> member_of ''prompt'' a = None) \<and> a \<noteq> JNull \<longrightarrow>
            fst (POST P S (Some k) fetch req) =
              \<lparr>status = 500, body = ErrorBody ''AI response missing required fields. Please try again.''\<rparr>)"
proof -
  have post: "POST P S (Some k) fetch req = (outer_catch (respond a), [provider_call S k url])"
    using assms by (rule POST_parsed [where P = P and fetch = fetch and c = c])
  have 1: "status (outer_catch (respond a)) = 200 \<longrightarrow>
            truthy_opt (member_of ''tokens'' a) \<and> truthy_opt (member_of ''prompt'' a)"
    using respond_200 [of a] by auto
  have 2: "(member_of ''tokens'' a = None \<or> member_of ''prompt'' a = None) \<and> a \<noteq> JNull \<longrightarrow>
            outer_catch (respond a) = missing_fields"
    using respond_missing [of a] by (auto simp: outer_catch_def)
  have 3: "a = JNull \<longrightarrow> status (outer_catch (respond a)) = 500"
    by (simp add: respond_def outer_catch_def error_response_def)
  have 4: "status missing_fields = 500" by (simp add: missing_fields_def error_response_def)
  have 5: "(member_of ''tokens'' a = None \<or> member_of ''prompt'' a = None) \<longrightarrow>
            status (outer_catch (respond a)) = 500"
    using 2 3 4 by (cases "a = JNull") auto
  show ?thesis unfolding post using 1 2 5 by (simp add: missing_fields_def error_response_def)
qed

theorem required_fields_gate_witness:
  "fst (POST (stub_parse [(''{\"prompt\":\"Use a red background...\"}'',
                        JObj [(''prompt'', JStr ''Use a red background...'')])])
          ''You are an expert UI/UX designer.'' (Some ''pplx-key'')
          (completion ''{\"prompt\":\"Use a red background...\"}'') png_request) =
     \<lparr>status = 500, body = ErrorBody ''AI response missing required fields. Please try again.''\<rparr> \<and>
   status (fst (POST (stub_parse [(''{\"tokens\":{},\"prompt\":\"Use a red background...\"}'',
                        JObj [(''tokens'', JObj []), (''prompt'', JStr ''Use a red background...'')])])
          ''You are an expert UI/UX designer.'' (Some ''pplx-key'')
          (completion ''{\"tokens\":{},\"prompt\":\"Use a red background...\"}'') png_request)) = 200 \<and>
   truthy_opt (member_of ''tokens'' (JObj [(''tokens'', JObj []), (''prompt'', JStr ''Use a red background...'')])) \<and>
   truthy_opt (member_of ''prompt'' (JObj [(''tokens'', JObj []), (''prompt'', JStr ''Use a red background...'')]))"
proof -
  let ?c = "''{\"prompt\":\"Use a red background...\"}''"
  let ?a = "JObj [(''prompt'', JStr ''Use a red background...'')]"
  let ?d = "''{\"tokens\":{},\"prompt\":\"Use a red background...\"}''"
  let ?b = "JObj [(''tokens'', JObj []), (''prompt'', JStr ''Use a red background...'')]"
  let ?S = "''You are an expert UI/UX designer.''"
  let ?call = "provider_call ?S ''pplx-key'' ''data:image/png;base64,iVBORw0KGgo=''"
  have cc: "cleanContent ?c = ?c"
    by (simp add: cleanContent_def strip_fences_def trim_def is_space_def startsWith_def endsWith_def)
  have dd: "cleanContent ?d = ?d"
    by (simp add: cleanContent_def strip_fences_def trim_def is_space_def startsWith_def endsWith_def)
  have h2: "''pplx-key'' \<noteq> []" by simp
  have c3: "provider_replied (completion ?c ?call) ?c" by (rule completion_replied) simp
  have d3: "provider_replied (completion ?d ?call) ?d" by (rule completion_replied) simp
  have c4: "stub_parse [(?c, ?a)] (cleanContent ?c) = Some ?a" unfolding cc by (simp add: stub_parse_def)
  have d4: "stub_parse [(?d, ?b)] (cleanContent ?d) = Some ?b" unfolding dd by (simp add: stub_parse_def)
  have run: "status (fst (POST (stub_parse [(?d, ?b)]) ?S (Some ''pplx-key'') (completion ?d) png_request)) = 200"
  proof -
    have d7: "?d \<noteq> []" by simp
    show ?thesis
      unfolding POST_completion [where P = "stub_parse [(?d, ?b)]" and c = "?d", OF h2 d7 d4]
      by (simp add: respond_def outer_catch_def)
  qed
  show ?thesis
    using required_fields_gate
        [where P = "stub_parse [(?c, ?a)]" and fetch = "completion ?c" and c = "?c",
         OF png_accepted h2 c3 c4]
      required_fields_gate
        [where P = "stub_parse [(?d, ?b)]" and fetch = "completion ?d" and c = "?d",
         OF png_accepted h2 d3 d4]
      run
    by simp
qed

text \<open>
  Claim C3 as stated asks for a \<^verbatim>\<open>tokens\<close> object and a \<^verbatim>\<open>prompt\<close> string. The
  check tests truthiness only: a reply whose \<^verbatim>\<open>tokens\<close> is the string
  \<^verbatim>\<open>"none"\<close> and whose \<^verbatim>\<open>prompt\<close> is the number 42 is answered with 200.
\<close>

theorem untyped_required_fields_counterexample:
  "status (fst (POST (stub_parse [(''{\"tokens\":\"none\",\"prompt\":42}'',
                        JObj [(''tokens'', JStr ''none''), (''prompt'', JNum (Finite 42))])])
          ''You are an expert UI/UX designer.'' (Some ''pplx-key'')
          (completion ''{\"tokens\":\"none\",\"prompt\":42}'') png_request)) = 200 \<and>
   \<not> has_field is_object ''tokens'' (JObj [(''tokens'', JStr ''none''), (''prompt'', JNum (Finite 42))]) \<and>
   \<not> has_field is_string ''prompt'' (JObj [(''tokens'', JStr ''none''), (''prompt'', JNum (Finite 42))])"
proof -
  let ?c = "''{\"tokens\":\"none\",\"prompt\":42}''"
  let ?a = "JObj [(''tokens'', JStr ''none''), (''prompt'', JNum (Finite 42))]"
  have cc: "cleanContent ?c = ?c"
    by (simp add: cleanContent_def strip_fences_def trim_def is_space_def startsWith_def endsWith_def)
  have p: "stub_parse [(?c, ?a)] (cleanContent ?c) = Some ?a"
    unfolding cc by (simp add: stub_parse_def)
  have "POST (stub_parse [(?c, ?a)]) ''You are an expert UI/UX designer.'' (Some ''pplx-key'')
          (completion ?c) png_request =
        (outer_catch (respond ?a),
         [provider_call ''You are an expert UI/UX designer.'' ''pplx-key'' ''data:image/png;base64,iVBORw0KGgo=''])"
    by (rule POST_completion [where P = "stub_parse [(?c, ?a)]", OF _ _ p]) simp_all
  then show ?thesis
    by (simp add: respond_def outer_catch_def has_field_def)
qed

section \<open>Failures of the provider\<close>

text \<open>
  Claim C7. When the provider answers with a status that is no success, the endpoint maps
  401 to 401 with the invalid-API-key message, 429 to 429 with the rate-limit message,
  400 to 400 with the message about a too large or unsupported image, and every other
  such status to 500 with the generic failure message; a client with an image loaded
  then holds exactly that message as its error and shows it in the error banner.
\<close>

theorem provider_failure_mapping:
  assumes "accepted_image req url" and "k \<noteq> []"
    and "fetch (provider_call S k url) = Responded r" and "\<not> ok (p_status r)"
  shows "(p_status r = 401 \<longrightarrow> fst (POST P S (Some k) fetch req) =
            \<lparr>status = 401, body = ErrorBody ''Invalid API key. Please check your PERPLEXITY_API_KEY.''\<rparr>) \<and>
         (p_status r = 429 \<longrightarrow> fst (POST P S (Some k) fetch req) =
            \<lparr>status = 429, body = ErrorBody ''Rate limit exceeded. Please try again in a moment.''\<rparr>) \<and>
         (p_status r = 400 \<longrightarrow> fst (POST P S (Some k) fetch req) =
            \<lparr>status = 400, body = ErrorBody
               ''Invalid request. The image may be too large (max 50MB) or in an unsupported format.''\<rparr>) \<and>
         (p_status r \<noteq> 401 \<and> p_status r \<noteq> 429 \<and> p_status r \<noteq> 400 \<longrightarrow>
            fst (POST P S (Some k) fetch req) =
              \<lparr>status = 500, body = ErrorBody ''Failed to analyze design. Please try again.''\<rparr>) \<and>
         (\<forall>st img. image_val st = Some img \<and> img \<noteq> [] \<longrightarrow>
            (\<exists>msg. body (fst (POST P S (Some k) fetch req)) = ErrorBody msg \<and>
               error (analyzeDesign (Reply (fst (POST P S (Some k) fetch req))) st) = Some msg \<and>
               error_banner (analyzeDesign (Reply (fst (POST P S (Some k) fetch req))) st) = Some msg))"
proof -
  have post: "fst (POST P S (Some k) fetch req) = provider_error (p_status r)"
    unfolding POST_accepted [OF assms(1,2)] assms(3) after_fetch_error [OF assms(4)]
    by (simp add: outer_catch_def)
  obtain msg where msg: "msg \<noteq> []" "body (provider_error (p_status r)) = ErrorBody msg"
    "\<not> ok (status (provider_error (p_status r)))"
    using provider_error_body by blast
  have client: "\<forall>st img. image_val st = Some img \<and> img \<noteq> [] \<longrightarrow>
            (\<exists>msg. body (provider_error (p_status r)) = ErrorBody msg \<and>
               error (analyzeDesign (Reply (provider_error (p_status r))) st) = Some msg \<and>
               error_banner (analyzeDesign (Reply (provider_error (p_status r))) st) = Some msg)"
    using analyzeDesign_error [OF _ _ msg(2) msg(1) msg(3)] msg(2) by blast
  show ?thesis
    unfolding post using client by (simp add: provider_error_def error_response_def)
qed

theorem provider_failure_witness:
  "fst (POST (stub_parse []) ''You are an expert UI/UX designer.'' (Some ''pplx-key'')
          (\<lambda>call. Responded \<lparr>p_status = 401, p_json = None\<rparr>) png_request) =
     \<lparr>status = 401, body = ErrorBody ''Invalid API key. Please check your PERPLEXITY_API_KEY.''\<rparr> \<and>
   error_banner (analyzeDesign
     (Reply (fst (POST (stub_parse []) ''You are an expert UI/UX designer.'' (Some ''pplx-key'')
          (\<lambda>call. Responded \<lparr>p_status = 401, p_json = None\<rparr>) png_request)))
     \<lparr>image_val = Some ''data:image/png;base64,iVBORw0KGgo='', fileName = ''shot.png'',
      isLoading = False, error = None, result = None, isDragging = False, copied = False\<rparr>) =
     Some ''Invalid API key. Please check your PERPLEXITY_API_KEY.''"
proof -
  let ?r = "\<lparr>p_status = 401, p_json = None\<rparr>"
  let ?st = "\<lparr>image_val = Some ''data:image/png;base64,iVBORw0KGgo='', fileName = ''shot.png'',
      isLoading = False, error = None, result = None, isDragging = False, copied = False\<rparr>"
  have h2: "''pplx-key'' \<noteq> []" by simp
  have h3: "(\<lambda>call. Responded ?r)
      (provider_call ''You are an expert UI/UX designer.'' ''pplx-key'' ''data:image/png;base64,iVBORw0KGgo='')
      = Responded ?r" by simp
  have h4: "\<not> ok (p_status ?r)" by (simp add: ok_def)
  have i: "image_val ?st = Some ''data:image/png;base64,iVBORw0KGgo='' \<and> ''data:image/png;base64,iVBORw0KGgo='' \<noteq> []"
    by simp
  note th = provider_failure_mapping
      [where P = "stub_parse []" and fetch = "\<lambda>call. Responded ?r"
         and S = "''You are an expert UI/UX designer.''", OF png_accepted h2 h3 h4]
  have 1: "fst (POST (stub_parse []) ''You are an expert UI/UX designer.'' (Some ''pplx-key'')
          (\<lambda>call. Responded ?r) png_request) =
     \<lparr>status = 401, body = ErrorBody ''Invalid API key. Please check your PERPLEXITY_API_KEY.''\<rparr>"
    using th by simp
  show ?thesis using th i unfolding 1 by auto
qed

section \<open>Order of the checks before the outbound call\<close>

text \<open>
  Claim C1, as amended. For every request whose \<^verbatim>\<open>imageBase64\<close> is a well-formed data
  URL with a MIME type outside the list, no outbound call is made. With the credential
  configured the handler answers 400 (the unsupported-format error for a type under
  \<^verbatim>\<open>image/\<close>); a type that is not under \<^verbatim>\<open>image/\<close> gets the 400 for an invalid
  image format whatever the credential; but for a type under \<^verbatim>\<open>image/\<close> with no
  credential configured the answer is the 500 for the missing credential, because the
  credential check (lines 91 to 99) comes before the check of the list (lines 101 to 114).
\<close>

theorem unsupported_mime_rejected:
  assumes "member_of ''imageBase64'' b = Some (JStr (data_url mime payload))"
    and "well_formed mime payload" and "mime \<notin> set supportedFormats"
  shows "snd (POST P S key fetch (Some b)) = [] \<and>
         (configured key \<longrightarrow> status (fst (POST P S key fetch (Some b))) = 400) \<and>
         (\<not> startsWith ''image/'' mime \<longrightarrow> fst (POST P S key fetch (Some b)) =
            \<lparr>status = 400, body = ErrorBody ''Invalid image format. Please upload a valid image file.''\<rparr>) \<and>
         (startsWith ''image/'' mime \<and> mime \<noteq> ''image/'' \<and> configured key \<longrightarrow>
            fst (POST P S key fetch (Some b)) =
              \<lparr>status = 400, body = ErrorBody ''Unsupported image format. Please use PNG, JPEG, WEBP, or GIF.''\<rparr>) \<and>
         (startsWith ''image/'' mime \<and> \<not> configured key \<longrightarrow>
            fst (POST P S key fetch (Some b)) =
              \<lparr>status = 500, body = ErrorBody
                 ''API key not configured. Please set PERPLEXITY_API_KEY in your environment.''\<rparr>)"
proof -
  obtain kvs where b: "b = JObj kvs" and v: "map_of kvs ''imageBase64'' = Some (JStr (data_url mime payload))"
    using assms(1) by (cases b) simp_all
  have ne: "data_url mime payload \<noteq> []" by (simp add: data_url_def)
  have semi: "CHR '';'' \<notin> set mime" and pl: "payload \<noteq> []" "\<not> list_ex line_terminator payload"
    using assms(2) by (simp_all add: well_formed_def split: if_splits)
  show ?thesis
  proof (cases "startsWith ''image/'' mime")
    case False
    then show ?thesis
      unfolding b POST_def POST_try_image [OF v]
      by (simp add: ne startsWith_data_url outer_catch_def error_response_def)
  next
    case True
    have m: "dataUrlMatch (data_url mime payload) =
        (if mime = ''image/'' then None else Some (mime, payload))"
      unfolding dataUrlMatch_data_url [OF True semi] using pl by simp
    show ?thesis
      unfolding b POST_def POST_try_image [OF v]
      using True assms(3)
      by (simp add: ne startsWith_data_url m outer_catch_def error_response_def)
  qed
qed

theorem unsupported_mime_witness:
  "POST (stub_parse []) ''You are an expert UI/UX designer.'' (Some ''pplx-key'') (\<lambda>call. Rejected)
     (Some (JObj [(''imageBase64'', JStr ''data:image/bmp;base64,Qk0='')])) =
   (\<lparr>status = 400, body = ErrorBody ''Unsupported image format. Please use PNG, JPEG, WEBP, or GIF.''\<rparr>, []) \<and>
   POST (stub_parse []) ''You are an expert UI/UX designer.'' (Some ''pplx-key'') (\<lambda>call. Rejected)
     (Some (JObj [(''imageBase64'', JStr ''data:application/pdf;base64,JVBERi0='')])) =
   (\<lparr>status = 400, body = ErrorBody ''Invalid image format. Please upload a valid image file.''\<rparr>, []) \<and>
   POST (stub_parse []) ''You are an expert UI/UX designer.'' None (\<lambda>call. Rejected)
     (Some (JObj [(''imageBase64'', JStr ''data:image/bmp;base64,Qk0='')])) =
   (\<lparr>status = 500, body = ErrorBody
       ''API key not configured. Please set PERPLEXITY_API_KEY in your environment.''\<rparr>, [])"
proof -
  let ?b = "JObj [(''imageBase64'', JStr ''data:image/bmp;base64,Qk0='')]"
  let ?d = "JObj [(''imageBase64'', JStr ''data:application/pdf;base64,JVBERi0='')]"
  have b1: "member_of ''imageBase64'' ?b = Some (JStr (data_url ''image/bmp'' ''Qk0=''))"
    by (simp add: data_url_def)
  have d1: "member_of ''imageBase64'' ?d = Some (JStr (data_url ''application/pdf'' ''JVBERi0=''))"
    by (simp add: data_url_def)
  have b2: "well_formed ''image/bmp'' ''Qk0=''" by (simp add: well_formed_def line_terminator_def)
  have d2: "well_formed ''application/pdf'' ''JVBERi0=''" by (simp add: well_formed_def line_terminator_def)
  have b3: "''image/bmp'' \<notin> set supportedFormats" by (simp add: supportedFormats_def)
  have d3: "''application/pdf'' \<notin> set supportedFormats" by (simp add: supportedFormats_def)
  have b4: "startsWith ''image/'' ''image/bmp'' \<and> ''image/bmp'' \<noteq> ''image/'' \<and> configured (Some ''pplx-key'')"
    by (simp add: startsWith_def)
  have d4: "\<not> startsWith ''image/'' ''application/pdf''" by (simp add: startsWith_def)
  show ?thesis
    using unsupported_mime_rejected [OF b1 b2 b3, of "stub_parse []" "''You are an expert UI/UX designer.''"
        "Some ''pplx-key''" "\<lambda>call. Rejected"]
      unsupported_mime_rejected [OF d1 d2 d3, of "stub_parse []" "''You are an expert UI/UX designer.''"
        "Some ''pplx-key''" "\<lambda>call. Rejected"]
      unsupported_mime_rejected [OF b1 b2 b3, of "stub_parse []" "''You are an expert UI/UX designer.''"
        None "\<lambda>call. Rejected"]
      b4 d4
    by (simp add: prod_eq_iff)
qed

text \<open>
  Claim C1 as stated has the rejection be a 400 whether or not the credential is
  configured. For \<^verbatim>\<open>data:image/bmp;base64,Qk0=\<close> with no credential the handler
  answers 500, with no outbound call.
\<close>

theorem credential_check_first_counterexample:
  "well_formed ''image/bmp'' ''Qk0='' \<and> ''image/bmp'' \<notin> set supportedFormats \<and>
   POST (stub_parse []) ''You are an expert UI/UX designer.'' None (\<lambda>call. Rejected)
     (Some (JObj [(''imageBase64'', JStr (data_url ''image/bmp'' ''Qk0=''))])) =
   (\<lparr>status = 500, body = ErrorBody
       ''API key not configured. Please set PERPLEXITY_API_KEY in your environment.''\<rparr>, [])"
  by (simp add: well_formed_def line_terminator_def supportedFormats_def data_url_def POST_def
      POST_try_def startsWith_def outer_catch_def error_response_def)

section \<open>The upload client\<close>

text \<open>
  Claim C8, as amended. For every file whose declared type is not one of the four formats
  or whose size exceeds 50 MiB, \<^verbatim>\<open>handleFile\<close> sets an error, changes nothing else and
  starts no read. For every accepted file whose read then fails, an error is surfaced
  and the image is left untouched; the file name is already the new file's name and the
  result is already cleared, since both are set before the read starts.
\<close>

theorem handleFile_frame:
  "(file_type f \<notin> set client_formats \<or> 50 * 1024 * 1024 < file_size f \<longrightarrow>
      (\<exists>msg. handleFile f outcome st = st\<lparr>error := Some msg\<rparr>) \<and>
      snd (handleFile_sync f st) = False) \<and>
   (file_type f \<in> set client_formats \<and> file_size f \<le> 50 * 1024 * 1024 \<longrightarrow>
      handleFile f ReadFailed st =
        st\<lparr>fileName := file_name f, result := None, error := Some ''Failed to read the image file''\<rparr> \<and>
      image_val (handleFile f ReadFailed st) = image_val st)"
  by (auto simp: handleFile_def handleFile_sync_def reader_onerror_def)

theorem handleFile_frame_witness:
  "handleFile \<lparr>file_type = ''image/bmp'', file_size = 1024, file_name = ''new.bmp''\<rparr> (ReadLoaded ''data:image/bmp;base64,Qk0='')
     \<lparr>image_val = Some ''data:image/png;base64,iVBORw0KGgo='', fileName = ''old.png'',
      isLoading = False, error = None, result = Some (ResultBody \<lparr>tokens = normalize_tokens (JObj []), prompt = JStr ''Use a red background...''\<rparr>), isDragging = False, copied = False\<rparr> =
     \<lparr>image_val = Some ''data:image/png;base64,iVBORw0KGgo='', fileName = ''old.png'',
      isLoading = False, error = Some ''Please upload a supported image file (PNG, JPG, WEBP, GIF)'',
      result = Some (ResultBody \<lparr>tokens = normalize_tokens (JObj []), prompt = JStr ''Use a red background...''\<rparr>), isDragging = False, copied = False\<rparr> \<and>
   handleFile \<lparr>file_type = ''image/png'', file_size = 1024, file_name = ''new.png''\<rparr> ReadFailed
     \<lparr>image_val = Some ''data:image/png;base64,iVBORw0KGgo='', fileName = ''old.png'',
      isLoading = False, error = None, result = Some (ResultBody \<lparr>tokens = normalize_tokens (JObj []), prompt = JStr ''Use a red background...''\<rparr>), isDragging = False, copied = False\<rparr> =
     \<lparr>image_val = Some ''data:image/png;base64,iVBORw0KGgo='', fileName = ''new.png'',
      isLoading = False, error = Some ''Failed to read the image file'',
      result = None, isDragging = False, copied = False\<rparr>"
proof -
  let ?st = "\<lparr>image_val = Some ''data:image/png;base64,iVBORw0KGgo='', fileName = ''old.png'',
      isLoading = False, error = None, result = Some (ResultBody \<lparr>tokens = normalize_tokens (JObj []), prompt = JStr ''Use a red background...''\<rparr>), isDragging = False, copied = False\<rparr>"
  let ?bad = "\<lparr>file_type = ''image/bmp'', file_size = 1024, file_name = ''new.bmp''\<rparr>"
  let ?good = "\<lparr>file_type = ''image/png'', file_size = 1024, file_name = ''new.png''\<rparr>"
  have 1: "file_type ?bad \<notin> set client_formats \<or> 50 * 1024 * 1024 < file_size ?bad"
    by (simp add: client_formats_def)
  have 2: "file_type ?good \<in> set client_formats \<and> file_size ?good \<le> 50 * 1024 * 1024"
    by (simp add: client_formats_def)
  obtain msg where m: "handleFile ?bad (ReadLoaded ''data:image/bmp;base64,Qk0='') ?st = ?st\<lparr>error := Some msg\<rparr>"
    using handleFile_frame [of ?bad "ReadLoaded ''data:image/bmp;base64,Qk0=''" ?st] 1 by blast
  have "error (handleFile ?bad (ReadLoaded ''data:image/bmp;base64,Qk0='') ?st) =
      Some ''Please upload a supported image file (PNG, JPG, WEBP, GIF)''"
    by (simp add: handleFile_def handleFile_sync_def client_formats_def)
  then have "msg = ''Please upload a supported image file (PNG, JPG, WEBP, GIF)''"
    unfolding m by simp
  then have a: "handleFile ?bad (ReadLoaded ''data:image/bmp;base64,Qk0='') ?st =
      ?st\<lparr>error := Some ''Please upload a supported image file (PNG, JPG, WEBP, GIF)''\<rparr>"
    using m by simp
  have b: "handleFile ?good ReadFailed ?st =
        ?st\<lparr>fileName := file_name ?good, result := None, error := Some ''Failed to read the image file''\<rparr>"
    using handleFile_frame [of ?good ReadFailed ?st] 2 by blast
  show ?thesis unfolding a b by simp
qed

text \<open>
  Claim C8 as stated has the file name and the result left untouched when the read of
  an accepted file fails. With a result on screen for \<^verbatim>\<open>old.png\<close>, a failed read
  of \<^verbatim>\<open>new.png\<close> leaves the name \<^verbatim>\<open>new.png\<close> and no result.
\<close>

theorem failed_read_counterexample:
  "fileName (handleFile \<lparr>file_type = ''image/png'', file_size = 1024, file_name = ''new.png''\<rparr> ReadFailed
     \<lparr>image_val = Some ''data:image/png;base64,iVBORw0KGgo='', fileName = ''old.png'',
      isLoading = False, error = None, result = Some (ResultBody \<lparr>tokens = normalize_tokens (JObj []), prompt = JStr ''Use a red background...''\<rparr>), isDragging = False, copied = False\<rparr>)
     = ''new.png'' \<and>
   result (handleFile \<lparr>file_type = ''image/png'', file_size = 1024, file_name = ''new.png''\<rparr> ReadFailed
     \<lparr>image_val = Some ''data:image/png;base64,iVBORw0KGgo='', fileName = ''old.png'',
      isLoading = False, error = None, result = Some (ResultBody \<lparr>tokens = normalize_tokens (JObj []), prompt = JStr ''Use a red background...''\<rparr>), isDragging = False, copied = False\<rparr>)
     = None"
  by (simp add: handleFile_def handleFile_sync_def client_formats_def reader_onerror_def)

section \<open>The tokens of a success response\<close>

text \<open>
  Claim C2, as amended. Every 200 response comes from a reply that parsed to a value with
  a \<^verbatim>\<open>tokens\<close> member \<open>t\<close>, and carries the normalised tokens of \<open>t\<close>:
  all six fields are there, each the model's value where that is truthy and the default
  otherwise, so each is truthy as handed to \<^verbatim>\<open>NextResponse.json\<close>. The client reads
  each field as handed over, except that a number that is not finite (an overflowing
  literal in the reply) arrives as \<^verbatim>\<open>null\<close>. The fields, as handed over and as
  read, have the types of the interface whenever every truthy field the model supplied
  has.
\<close>

theorem success_tokens_shape:
  assumes "status (fst (POST P S key fetch req)) = 200"
  shows "\<exists>k url c a t p. key = Some k \<and> accepted_image req url \<and>
           provider_replied (fetch (provider_call S k url)) c \<and> P (cleanContent c) = Some a \<and>
           member_of ''tokens'' a = Some t \<and>
           body (fst (POST P S key fetch req)) =
             ResultBody \<lparr>tokens = normalize_tokens t, prompt = p\<rparr> \<and>
           body (received (fst (POST P S key fetch req))) =
             ResultBody \<lparr>tokens = delivered_tokens (normalize_tokens t), prompt = delivered p\<rparr> \<and>
           list_all (\<lambda>field. truthy (field (normalize_tokens t)) \<and>
               (delivered (field (normalize_tokens t)) = JNull) = non_finite (field (normalize_tokens t)))
             [colors, typography, spacing, animations, elevation, radius] \<and>
           (supplied_well_typed t \<longrightarrow>
              tokens_well_typed (normalize_tokens t) \<and>
              tokens_well_typed (delivered_tokens (normalize_tokens t)))"
proof -
  obtain k url c a t p where "key = Some k" "accepted_image req url"
    "provider_replied (fetch (provider_call S k url)) c" "P (cleanContent c) = Some a"
    "member_of ''tokens'' a = Some t"
    "fst (POST P S key fetch req) =
       \<lparr>status = 200, body = ResultBody \<lparr>tokens = normalize_tokens t, prompt = p\<rparr>\<rparr>"
    using POST_200_result [OF assms] by blast
  then have "key = Some k \<and> accepted_image req url \<and>
           provider_replied (fetch (provider_call S k url)) c \<and> P (cleanContent c) = Some a \<and>
           member_of ''tokens'' a = Some t \<and>
           body (fst (POST P S key fetch req)) =
             ResultBody \<lparr>tokens = normalize_tokens t, prompt = p\<rparr> \<and>
           body (received (fst (POST P S key fetch req))) =
             ResultBody \<lparr>tokens = delivered_tokens (normalize_tokens t), prompt = delivered p\<rparr>"
    by (simp add: received_def)
  moreover have "supplied_well_typed t \<longrightarrow>
              tokens_well_typed (normalize_tokens t) \<and>
              tokens_well_typed (delivered_tokens (normalize_tokens t))"
    using normalize_tokens_typed [of t] tokens_well_typed_delivered by blast
  ultimately show ?thesis
    using normalize_tokens_delivery [of t] by blast
qed

theorem success_tokens_shape_witness:
  "status (fst (POST
     (stub_parse [(''{\"tokens\":{\"colors\":[{\"name\":\"Red\",\"hex\":\"#FF0000\"}]},\"prompt\":\"Use a red background...\"}'',
        JObj [(''tokens'', JObj [(''colors'', JArr [JObj [(''name'', JStr ''Red''), (''hex'', JStr ''#FF0000'')]])]),
              (''prompt'', JStr ''Use a red background...'')])])
     ''You are an expert UI/UX designer.'' (Some ''pplx-key'')
     (completion ''{\"tokens\":{\"colors\":[{\"name\":\"Red\",\"hex\":\"#FF0000\"}]},\"prompt\":\"Use a red background...\"}'')
     png_request)) = 200 \<and>
   supplied_well_typed (JObj [(''colors'', JArr [JObj [(''name'', JStr ''Red''), (''hex'', JStr ''#FF0000'')]])]) \<and>
   map_option tokens_well_typed (returned_tokens (received (fst (POST
     (stub_parse [(''{\"tokens\":{\"colors\":[{\"name\":\"Red\",\"hex\":\"#FF0000\"}]},\"prompt\":\"Use a red background...\"}'',
        JObj [(''tokens'', JObj [(''colors'', JArr [JObj [(''name'', JStr ''Red''), (''hex'', JStr ''#FF0000'')]])]),
              (''prompt'', JStr ''Use a red background...'')])])
     ''You are an expert UI/UX designer.'' (Some ''pplx-key'')
     (completion ''{\"tokens\":{\"colors\":[{\"name\":\"Red\",\"hex\":\"#FF0000\"}]},\"prompt\":\"Use a red background...\"}'')
     png_request)))) = Some True \<and>
   status (fst (POST
     (stub_parse [(''{\"tokens\":{\"spacing\":1e999},\"prompt\":\"Use a red background...\"}'',
        JObj [(''tokens'', JObj [(''spacing'', JNum PosInfinity)]),
              (''prompt'', JStr ''Use a red background...'')])])
     ''You are an expert UI/UX designer.'' (Some ''pplx-key'')
     (completion ''{\"tokens\":{\"spacing\":1e999},\"prompt\":\"Use a red background...\"}'')
     png_request)) = 200 \<and>
   map_option spacing (returned_tokens (received (fst (POST
     (stub_parse [(''{\"tokens\":{\"spacing\":1e999},\"prompt\":\"Use a red background...\"}'',
        JObj [(''tokens'', JObj [(''spacing'', JNum PosInfinity)]),
              (''prompt'', JStr ''Use a red background...'')])])
     ''You are an expert UI/UX designer.'' (Some ''pplx-key'')
     (completion ''{\"tokens\":{\"spacing\":1e999},\"prompt\":\"Use a red background...\"}'')
     png_request)))) = Some JNull"
proof -
  let ?c = "''{\"tokens\":{\"colors\":[{\"name\":\"Red\",\"hex\":\"#FF0000\"}]},\"prompt\":\"Use a red background...\"}''"
  let ?t = "JObj [(''colors'', JArr [JObj [(''name'', JStr ''Red''), (''hex'', JStr ''#FF0000'')]])]"
  let ?a = "JObj [(''tokens'', ?t), (''prompt'', JStr ''Use a red background...'')]"
  let ?P = "stub_parse [(?c, ?a)]"
  let ?S = "''You are an expert UI/UX designer.''"
  let ?R = "POST ?P ?S (Some ''pplx-key'') (completion ?c) png_request"
  let ?d = "''{\"tokens\":{\"spacing\":1e999},\"prompt\":\"Use a red background...\"}''"
  let ?u = "JObj [(''spacing'', JNum PosInfinity)]"
  let ?b = "JObj [(''tokens'', ?u), (''prompt'', JStr ''Use a red background...'')]"
  let ?Q = "stub_parse [(?d, ?b)]"
  let ?R' = "POST ?Q ?S (Some ''pplx-key'') (completion ?d) png_request"
  have cc: "cleanContent ?c = ?c"
    by (simp add: cleanContent_def strip_fences_def trim_def is_space_def startsWith_def endsWith_def)
  have dd: "cleanContent ?d = ?d"
    by (simp add: cleanContent_def strip_fences_def trim_def is_space_def startsWith_def endsWith_def)
  have p: "?P (cleanContent ?c) = Some ?a"
    unfolding cc by (simp add: stub_parse_def)
  have q: "?Q (cleanContent ?d) = Some ?b"
    unfolding dd by (simp add: stub_parse_def)
  have k: "''pplx-key'' \<noteq> []" and c: "?c \<noteq> []" and d: "?d \<noteq> []" by simp_all
  have run: "fst ?R = outer_catch (respond ?a)"
    unfolding POST_completion [where P = "?P" and c = "?c", OF k c p] by simp
  have run': "fst ?R' = outer_catch (respond ?b)"
    unfolding POST_completion [where P = "?Q" and c = "?d", OF k d q] by simp
  have h: "status (fst ?R) = 200" unfolding run by (simp add: respond_def outer_catch_def)
  have h': "status (fst ?R') = 200" unfolding run' by (simp add: respond_def outer_catch_def)
  have st: "supplied_well_typed ?t"
    by (simp add: supplied_well_typed_def supplied_ok_def is_color_token_def has_field_def)
  obtain k' url' c' a' t' p' where
    r: "provider_replied (completion ?c (provider_call ?S k' url')) c'"
    and pa: "?P (cleanContent c') = Some a'" and ta: "member_of ''tokens'' a' = Some t'"
    and b: "body (received (fst ?R)) =
        ResultBody \<lparr>tokens = delivered_tokens (normalize_tokens t'), prompt = delivered p'\<rparr>"
    and ty: "supplied_well_typed t' \<longrightarrow>
        tokens_well_typed (normalize_tokens t') \<and> tokens_well_typed (delivered_tokens (normalize_tokens t'))"
    using success_tokens_shape [OF h] by blast
  have "c' = ?c" using r by (rule completion_content_unique)
  then have "a' = ?a" using pa p by simp
  then have "t' = ?t" using ta by simp
  then have "tokens_well_typed (delivered_tokens (normalize_tokens t'))" using ty st by simp
  then have 1: "map_option tokens_well_typed (returned_tokens (received (fst ?R))) = Some True"
    by (simp add: returned_tokens_def b)
  obtain k'' url'' c'' a'' t'' p'' where
    r2: "provider_replied (completion ?d (provider_call ?S k'' url'')) c''"
    and pa2: "?Q (cleanContent c'') = Some a''" and ta2: "member_of ''tokens'' a'' = Some t''"
    and b2: "body (received (fst ?R')) =
        ResultBody \<lparr>tokens = delivered_tokens (normalize_tokens t''), prompt = delivered p''\<rparr>"
    and nf: "list_all (\<lambda>field. truthy (field (normalize_tokens t'')) \<and>
               (delivered (field (normalize_tokens t'')) = JNull) = non_finite (field (normalize_tokens t'')))
             [colors, typography, spacing, animations, elevation, radius]"
    using success_tokens_shape [OF h'] by blast
  have "c'' = ?d" using r2 by (rule completion_content_unique)
  then have "a'' = ?b" using pa2 q by simp
  then have t'': "t'' = ?u" using ta2 by simp
  have "spacing (normalize_tokens ?u) = JNum PosInfinity" by (simp add: normalize_tokens_def)
  then have "delivered (spacing (normalize_tokens t'')) = JNull"
    using nf t'' by (simp add: non_finite_def)
  then have 2: "map_option spacing (returned_tokens (received (fst ?R'))) = Some JNull"
    by (simp add: returned_tokens_def b2 delivered_tokens_def)
  show ?thesis using h st 1 h' 2 by simp
qed

text \<open>
  Claim C2 as stated promises the types whatever the model supplied. No type is checked:
  a reply whose \<^verbatim>\<open>tokens.colors\<close> is the string \<^verbatim>\<open>"red"\<close> is answered with 200 and
  the client reads that string as \<^verbatim>\<open>colors\<close>, which is no sequence of colour records.
\<close>

theorem untyped_tokens_counterexample:
  "status (fst (POST
     (stub_parse [(''{\"tokens\":{\"colors\":\"red\"},\"prompt\":\"Use a red background...\"}'',
        JObj [(''tokens'', JObj [(''colors'', JStr ''red'')]), (''prompt'', JStr ''Use a red background...'')])])
     ''You are an expert UI/UX designer.'' (Some ''pplx-key'')
     (completion ''{\"tokens\":{\"colors\":\"red\"},\"prompt\":\"Use a red background...\"}'')
     png_request)) = 200 \<and>
   map_option colors (returned_tokens (received (fst (POST
     (stub_parse [(''{\"tokens\":{\"colors\":\"red\"},\"prompt\":\"Use a red background...\"}'',
        JObj [(''tokens'', JObj [(''colors'', JStr ''red'')]), (''prompt'', JStr ''Use a red background...'')])])
     ''You are an expert UI/UX designer.'' (Some ''pplx-key'')
     (completion ''{\"tokens\":{\"colors\":\"red\"},\"prompt\":\"Use a red background...\"}'')
     png_request)))) = Some (JStr ''red'') \<and>
   map_option tokens_well_typed (returned_tokens (received (fst (POST
     (stub_parse [(''{\"tokens\":{\"colors\":\"red\"},\"prompt\":\"Use a red background...\"}'',
        JObj [(''tokens'', JObj [(''colors'', JStr ''red'')]), (''prompt'', JStr ''Use a red background...'')])])
     ''You are an expert UI/UX designer.'' (Some ''pplx-key'')
     (completion ''{\"tokens\":{\"colors\":\"red\"},\"prompt\":\"Use a red background...\"}'')
     png_request)))) = Some False"
proof -
  let ?c = "''{\"tokens\":{\"colors\":\"red\"},\"prompt\":\"Use a red background...\"}''"
  let ?a = "JObj [(''tokens'', JObj [(''colors'', JStr ''red'')]), (''prompt'', JStr ''Use a red background...'')]"
  let ?P = "stub_parse [(?c, ?a)]"
  let ?R = "POST ?P ''You are an expert UI/UX designer.'' (Some ''pplx-key'') (completion ?c) png_request"
  have cc: "cleanContent ?c = ?c"
    by (simp add: cleanContent_def strip_fences_def trim_def is_space_def startsWith_def endsWith_def)
  have p: "?P (cleanContent ?c) = Some ?a"
    unfolding cc by (simp add: stub_parse_def)
  have k: "''pplx-key'' \<noteq> []" and c: "?c \<noteq> []" by simp_all
  have run: "fst ?R = outer_catch (respond ?a)"
    unfolding POST_completion [where P = "?P" and c = "?c", OF k c p] by simp
  show ?thesis
    unfolding run
    by (simp add: respond_def outer_catch_def returned_tokens_def normalize_tokens_def
        tokens_well_typed_def received_def delivered_tokens_def)
qed

section \<open>Repeated invocation\<close>



end
